theory Spec2Isabelle
  imports Complex_Main
begin

section \<open>The query cache engine of rtk-query: thunks and tag descriptions\<close>

text \<open>
  The development embeds \<^verbatim>\<open>buildThunks\<close> and \<^verbatim>\<open>calculateProvidedByThunk\<close>
  (the module of the thunks, src/unnamed/part_000) and \<^verbatim>\<open>calculateProvidedBy\<close>
  (src/src/endpointDefinitions.ts).

  Conventions. A JavaScript number that is a time stamp is a value of \<^verbatim>\<open>Date.now()\<close>: an
  integer count of milliseconds, here an \<^typ>\<open>int\<close>. Every other number is a finite
  \<^typ>\<open>real\<close>; \<^verbatim>\<open>NaN\<close> arises only from reading a missing time stamp and is the
  \<^term>\<open>None\<close> of \<^typ>\<open>real option\<close> there. An optional property is an
  \<^typ>\<open>'a option\<close>, with \<^term>\<open>None\<close> for \<^verbatim>\<open>undefined\<close>.
\<close>

subsection \<open>JavaScript values\<close>

text \<open>Values of type \<^verbatim>\<open>unknown\<close> or \<^verbatim>\<open>any\<close>: arguments, response data, error payloads,
  metadata and thrown values.\<close>

datatype jsval =
    JUndefined
  | JNull
  | JBool bool
  | JNum real
  | JStr string
  | JArr "jsval list"
  | JObj "(string \<times> jsval) list"

text \<open>What \<^verbatim>\<open>if (v)\<close> tests: \<^verbatim>\<open>undefined\<close>, \<^verbatim>\<open>null\<close>, \<^verbatim>\<open>false\<close>, \<^verbatim>\<open>0\<close> and
  the empty string are falsy, every object is truthy.\<close>

fun js_truthy :: "jsval \<Rightarrow> bool" where
  "js_truthy JUndefined = False"
| "js_truthy JNull = False"
| "js_truthy (JBool b) = b"
| "js_truthy (JNum n) = (n \<noteq> 0)"
| "js_truthy (JStr s) = (s \<noteq> [])"
| "js_truthy (JArr xs) = True"
| "js_truthy (JObj kvs) = True"

text \<open>The type \<^verbatim>\<open>boolean | number\<close> of \<^verbatim>\<open>forceRefetch\<close> and
  \<^verbatim>\<open>refetchOnMountOrArgChange\<close>, and the type \<^verbatim>\<open>false | number\<close> of
  \<^verbatim>\<open>ifOlderThan\<close>.\<close>

datatype bool_or_number = Boolean bool | Number real

datatype false_or_number = JsFalse | JsNumber real

text \<open>Truthiness at these types: \<^verbatim>\<open>undefined\<close>, \<^verbatim>\<open>false\<close> and \<^verbatim>\<open>0\<close> are falsy.\<close>

fun truthy :: "bool_or_number option \<Rightarrow> bool" where
  "truthy None = False"
| "truthy (Some (Boolean b)) = b"
| "truthy (Some (Number n)) = (n \<noteq> 0)"

fun truthy_maxAge :: "false_or_number \<Rightarrow> bool" where
  "truthy_maxAge JsFalse = False"
| "truthy_maxAge (JsNumber n) = (n \<noteq> 0)"

fun truthy_ts :: "int option \<Rightarrow> bool" where
  "truthy_ts None = False"
| "truthy_ts (Some t) = (t \<noteq> 0)"

text \<open>\<^verbatim>\<open>a && b\<close> for a left operand of type \<^verbatim>\<open>boolean | undefined\<close>: the left operand
  when it is falsy, the right one otherwise.\<close>

fun js_and :: "bool option \<Rightarrow> bool_or_number \<Rightarrow> bool_or_number option" where
  "js_and None b = None"
| "js_and (Some False) b = Some (Boolean False)"
| "js_and (Some True) b = Some b"

text \<open>\<^verbatim>\<open>a ?? b\<close>: the right operand only when the left one is \<^verbatim>\<open>undefined\<close>.\<close>

fun js_nullish :: "'a option \<Rightarrow> 'a option \<Rightarrow> 'a option" where
  "js_nullish None b = b"
| "js_nullish (Some a) b = Some a"

text \<open>\<^verbatim>\<open>(Number(new Date()) - Number(ts)) / 1000\<close>, which is \<^verbatim>\<open>NaN\<close> for a missing
  \<^verbatim>\<open>ts\<close>.\<close>

fun elapsed_seconds :: "int \<Rightarrow> int option \<Rightarrow> real option" where
  "elapsed_seconds now None = None"
| "elapsed_seconds now (Some ts) = Some (real_of_int (now - ts) / 1000)"

text \<open>\<^verbatim>\<open>x >= v\<close>: false when either side is \<^verbatim>\<open>NaN\<close> or \<^verbatim>\<open>undefined\<close>; a boolean
  operand is converted to 0 or 1.\<close>

fun js_ge :: "real option \<Rightarrow> bool_or_number option \<Rightarrow> bool" where
  "js_ge (Some x) (Some (Number n)) = (x \<ge> n)"
| "js_ge (Some x) (Some (Boolean b)) = (x \<ge> (if b then 1 else 0))"
| "js_ge x None = False"
| "js_ge None v = False"

subsection \<open>Cache state and thunk arguments\<close>

datatype QueryStatus = uninitialized | pending | fulfilled | rejected

record QuerySubState =
  status :: QueryStatus
  requestId :: "string option"
  data :: "jsval option"
  fulfilledTimeStamp :: "int option"

record ConfigState =
  refetchOnMountOrArgChange :: bool_or_number

record ApiState =
  queries :: "string \<rightharpoonup> QuerySubState"
  config :: ConfigState

record ThunkArg =
  originalArgs :: jsval
  endpointName :: string
  startedTimeStamp :: int

record QueryThunkArg = ThunkArg +
  queryCacheKey :: string
  subscribe :: "bool option"
  forceRefetch :: "bool_or_number option"

datatype js_error = TypeError

subsection \<open>The run condition of the query thunk\<close>

text \<open>
  \<^verbatim>\<open>condition(arg, { getState })\<close>. The first argument is \<^verbatim>\<open>getState()[reducerPath]\<close>,
  which is \<^verbatim>\<open>undefined\<close> while the reducer is not mounted: \<^verbatim>\<open>state?.queries\<close> guards
  against that, \<^verbatim>\<open>state.config\<close> does not and raises. The last argument is the value of
  \<^verbatim>\<open>Number(new Date())\<close>.
\<close>

definition refetchVal_of :: "'a QueryThunkArg_scheme \<Rightarrow> bool_or_number \<Rightarrow> bool_or_number option" where
  "refetchVal_of arg baseFetchOnMountOrArgChange =
     js_nullish (forceRefetch arg) (js_and (subscribe arg) baseFetchOnMountOrArgChange)"

definition condition :: "ApiState option \<Rightarrow> 'a QueryThunkArg_scheme \<Rightarrow> int \<Rightarrow> js_error + bool" where
  "condition state arg now =
     (case state of
        None \<Rightarrow> Inl TypeError
      | Some s \<Rightarrow>
          (let requestState = queries s (queryCacheKey arg);
               baseFetchOnMountOrArgChange = refetchOnMountOrArgChange (config s);
               fulfilledVal = (case requestState of None \<Rightarrow> None | Some r \<Rightarrow> fulfilledTimeStamp r);
               refetchVal = refetchVal_of arg baseFetchOnMountOrArgChange
           in if (case requestState of None \<Rightarrow> False | Some r \<Rightarrow> status r = pending) then Inr False
              else if truthy_ts fulfilledVal then
                (if truthy refetchVal then
                   Inr (refetchVal = Some (Boolean True) \<or>
                        js_ge (elapsed_seconds now fulfilledVal) refetchVal)
                 else Inr False)
              else Inr True))"

subsection \<open>Selecting a cache entry\<close>

text \<open>
  Modelled from the spec: the selector \<^verbatim>\<open>api.endpoints[endpointName].select(arg)\<close>
  (core/buildSelectors.ts is not among the sources). It reads the cache entry stored under
  the serialized key; when no entry exists it yields a sub-state of status
  \<^verbatim>\<open>uninitialized\<close> with no data and no time stamp.
\<close>

definition defaultQuerySubState :: QuerySubState where
  "defaultQuerySubState =
     \<lparr>status = uninitialized, requestId = None, data = None, fulfilledTimeStamp = None\<rparr>"

definition select :: "string \<Rightarrow> ApiState \<Rightarrow> QuerySubState" where
  "select key state = (case queries state key of None \<Rightarrow> defaultQuerySubState | Some r \<Rightarrow> r)"

subsection \<open>The prefetch thunk\<close>

record PrefetchOptions =
  force :: "bool option"
  ifOlderThan :: "false_or_number option"

text \<open>The action \<^verbatim>\<open>api.endpoints[endpointName].initiate(arg, { forceRefetch })\<close> that the
  prefetch thunk dispatches.\<close>

datatype initiate_action = Initiate string jsval bool

definition hasTheForce :: "PrefetchOptions \<Rightarrow> bool" where
  "hasTheForce options = (force options \<noteq> None)"

definition hasMaxAge :: "PrefetchOptions \<Rightarrow> bool" where
  "hasMaxAge options = (ifOlderThan options \<noteq> None)"

text \<open>
  \<^verbatim>\<open>prefetchThunk(endpointName, arg, options)(dispatch, getState)\<close>, as the list of the actions
  it dispatches. \<^verbatim>\<open>queryAction()\<close> is \<^verbatim>\<open>initiate(arg, { forceRefetch: true })\<close> by the
  default value of its parameter. The serializer is the one the selector uses for the key.
\<close>

definition prefetchThunk ::
  "(jsval \<Rightarrow> string \<Rightarrow> string) \<Rightarrow> string \<Rightarrow> jsval \<Rightarrow> PrefetchOptions \<Rightarrow> ApiState \<Rightarrow> int
     \<Rightarrow> initiate_action list" where
  "prefetchThunk serializeQueryArgs ename arg options state now =
     (let force_val = (hasTheForce options \<and> force options = Some True);
          maxAge = (if hasMaxAge options
                    then (case ifOlderThan options of None \<Rightarrow> JsFalse | Some v \<Rightarrow> v)
                    else JsFalse);
          queryAction = (\<lambda>f. Initiate ename arg f);
          latestStateValue = select (serializeQueryArgs arg ename) state
      in if force_val then [queryAction True]
         else if truthy_maxAge maxAge then
           (let lastFulfilledTs = fulfilledTimeStamp latestStateValue
            in if \<not> truthy_ts lastFulfilledTs then [queryAction True]
               else (let shouldRetrigger =
                           js_ge (elapsed_seconds now lastFulfilledTs)
                             (case maxAge of JsFalse \<Rightarrow> Some (Boolean False) | JsNumber n \<Rightarrow> Some (Number n))
                     in if shouldRetrigger then [queryAction True] else []))
         else [queryAction False])"

text \<open>
  Modelled from the spec: the action creator \<^verbatim>\<open>initiate\<close> (core/buildInitiate.ts is not
  among the sources) invokes the query path of the execution engine with the given
  forced-refetch flag: it dispatches the query thunk for the serialized key, subscribing by
  default.
\<close>

definition initiate ::
  "(jsval \<Rightarrow> string \<Rightarrow> string) \<Rightarrow> initiate_action \<Rightarrow> int \<Rightarrow> QueryThunkArg" where
  "initiate serializeQueryArgs a now =
     (case a of Initiate name arg f \<Rightarrow>
        \<lparr>originalArgs = arg, endpointName = name, startedTimeStamp = now,
         queryCacheKey = serializeQueryArgs arg name, subscribe = Some True,
         forceRefetch = Some (Boolean f)\<rparr>)"

text \<open>A prefetch performs the query when it dispatches an action whose run condition
  holds. The condition reads the clock a second time.\<close>

definition prefetch_performs ::
  "(jsval \<Rightarrow> string \<Rightarrow> string) \<Rightarrow> string \<Rightarrow> jsval \<Rightarrow> PrefetchOptions \<Rightarrow> ApiState \<Rightarrow> int \<Rightarrow> int
     \<Rightarrow> bool" where
  "prefetch_performs serializeQueryArgs ename arg options state now now' =
     list_ex (\<lambda>a. condition (Some state) (initiate serializeQueryArgs a now') now' = Inr True)
       (prefetchThunk serializeQueryArgs ename arg options state now)"

subsection \<open>Manual cache patches\<close>

record Patch =
  op :: string
  path :: "jsval list"
  patch_value :: jsval

record PatchCollection =
  patches :: "Patch list"
  inversePatches :: "Patch list"

text \<open>The action \<^verbatim>\<open>api.internalActions.queryResultPatched({ queryCacheKey, patches })\<close>.\<close>

datatype internal_action = queryResultPatched string "Patch list"

text \<open>
  \<^verbatim>\<open>patchQueryResult(endpointName, args, patches)(dispatch)\<close>, as the list of the actions it
  dispatches; it returns nothing. The serializer receives the arguments, the endpoint
  definition found under the name, and the name.
\<close>

definition patchQueryResult ::
  "(jsval \<Rightarrow> 'd option \<Rightarrow> string \<Rightarrow> string) \<Rightarrow> (string \<rightharpoonup> 'd) \<Rightarrow> string \<Rightarrow> jsval \<Rightarrow> Patch list
     \<Rightarrow> internal_action list" where
  "patchQueryResult serializeQueryArgs endpointDefinitions ename args ps =
     (let endpointDefinition = endpointDefinitions ename
      in [queryResultPatched (serializeQueryArgs args endpointDefinition ename) ps])"

text \<open>
  \<^verbatim>\<open>updateQueryResult(endpointName, args, updateRecipe)(dispatch, getState)\<close>: the returned
  patch collection and the actions dispatched. \<^verbatim>\<open>isDraftable\<close> and
  \<^verbatim>\<open>produceWithPatches\<close> belong to the immer library and are parameters; the latter yields
  the next value, the patches and the inverse patches.
\<close>

definition updateQueryResult ::
  "(jsval \<Rightarrow> bool) \<Rightarrow> (jsval \<Rightarrow> (jsval \<Rightarrow> jsval) \<Rightarrow> jsval \<times> Patch list \<times> Patch list)
     \<Rightarrow> (jsval \<Rightarrow> 'd option \<Rightarrow> string \<Rightarrow> string) \<Rightarrow> (string \<rightharpoonup> 'd)
     \<Rightarrow> string \<Rightarrow> jsval \<Rightarrow> (jsval \<Rightarrow> jsval) \<Rightarrow> ApiState
     \<Rightarrow> PatchCollection \<times> internal_action list" where
  "updateQueryResult isDraftable produceWithPatches serializeQueryArgs endpointDefinitions
       ename args updateRecipe state =
     (let currentState =
            select (serializeQueryArgs args (endpointDefinitions ename) ename) state;
          ret = \<lparr>patches = [], inversePatches = []\<rparr>
      in if status currentState = uninitialized then (ret, [])
         else
           (let ret' =
                  (case data currentState of
                     None \<Rightarrow> ret
                   | Some d \<Rightarrow>
                       if isDraftable d then
                         (case produceWithPatches d updateRecipe of
                            (next, ps, ips) \<Rightarrow>
                              \<lparr>patches = patches ret @ ps,
                               inversePatches = inversePatches ret @ ips\<rparr>)
                       else
                         (let v = updateRecipe d
                          in \<lparr>patches = patches ret @
                                 [\<lparr>op = ''replace'', path = [], patch_value = v\<rparr>],
                               inversePatches = inversePatches ret @
                                 [\<lparr>op = ''replace'', path = [], patch_value = d\<rparr>]\<rparr>))
            in (ret',
                patchQueryResult serializeQueryArgs endpointDefinitions ename args
                  (patches ret'))))"

text \<open>
  Modelled from the spec: the reducer of \<^verbatim>\<open>queryResultPatched\<close> (core/buildSlice.ts is not
  among the sources) applies the given patches to the data of the cached entry of the key,
  and does nothing when no entry exists for the key. \<^verbatim>\<open>applyPatches\<close> belongs to the immer
  library and is a parameter.
\<close>

definition queryResultPatched_reducer ::
  "(jsval \<Rightarrow> Patch list \<Rightarrow> jsval) \<Rightarrow> ApiState \<Rightarrow> internal_action \<Rightarrow> ApiState" where
  "queryResultPatched_reducer applyPatches state a =
     (case a of
        queryResultPatched key ps \<Rightarrow>
          (case queries state key of
             None \<Rightarrow> state
           | Some q \<Rightarrow>
               state\<lparr>queries := (queries state)(key \<mapsto>
                       q\<lparr>data := map_option (\<lambda>d. applyPatches d ps) (data q)\<rparr>)\<rparr>))"

subsection \<open>Entity descriptions\<close>

text \<open>\<^verbatim>\<open>FullEntityDescription\<close> is \<^verbatim>\<open>{ type; id? }\<close> with an id of type
  \<^verbatim>\<open>number | string\<close>; \<^verbatim>\<open>EntityDescription\<close> adds the bare type string.\<close>

datatype id_value = IdNumber real | IdString string

record FullEntityDescription =
  entity_type :: string
  entity_id :: "id_value option"

datatype EntityDescription = TypeString string | Full FullEntityDescription

text \<open>\<^verbatim>\<open>ResultDescription\<close>: a static array, or a function of the result, the error and
  the query argument.\<close>

datatype ResultDescription =
    DescriptionArray "EntityDescription list"
  | DescriptionFn "jsval \<Rightarrow> jsval \<Rightarrow> jsval \<Rightarrow> EntityDescription list"

definition expandEntityDescription :: "EntityDescription \<Rightarrow> FullEntityDescription" where
  "expandEntityDescription description =
     (case description of
        TypeString s \<Rightarrow> \<lparr>entity_type = s, entity_id = None\<rparr>
      | Full d \<Rightarrow> d)"

text \<open>\<^verbatim>\<open>calculateProvidedBy\<close>. The test \<^verbatim>\<open>isFunction\<close> comes first, then
  \<^verbatim>\<open>Array.isArray\<close>; \<^verbatim>\<open>assertEntityTypes\<close> is a parameter of the source function.\<close>

definition calculateProvidedBy ::
  "ResultDescription option \<Rightarrow> jsval \<Rightarrow> jsval \<Rightarrow> jsval
     \<Rightarrow> (FullEntityDescription \<Rightarrow> FullEntityDescription) \<Rightarrow> FullEntityDescription list" where
  "calculateProvidedBy description res err queryArg assertEntityTypes =
     (case description of
        Some (DescriptionFn f) \<Rightarrow>
          map assertEntityTypes (map expandEntityDescription (f res err queryArg))
      | Some (DescriptionArray xs) \<Rightarrow>
          map assertEntityTypes (map expandEntityDescription xs)
      | None \<Rightarrow> [])"

subsection \<open>The world an execution runs in\<close>

text \<open>
  Hooks, request builders, the transport and response transformations are code of the
  application. A call of one of them may change anything it can reach and either returns or
  throws. What it can reach is the \<^emph>\<open>world\<close>: the clock read by \<^verbatim>\<open>Date.now()\<close>, the
  contents of the context objects (by address), and the store with everything else.
  The address counter of the allocator is not part of the world.
\<close>

record 'u world =
  clock :: int
  contexts :: "nat \<Rightarrow> (string \<rightharpoonup> jsval)"
  store :: 'u

text \<open>A thrown value is an instance of the class \<^verbatim>\<open>HandledError\<close>, with its fields
  \<^verbatim>\<open>value\<close> and \<^verbatim>\<open>meta\<close>, or any other value.\<close>

datatype thrown = HandledError jsval jsval | Thrown jsval

type_synonym ('u, 'r) collab = "'u world \<Rightarrow> 'u world \<times> (thrown + 'r)"

text \<open>\<^verbatim>\<open>QueryReturnValue\<close> is \<^verbatim>\<open>{ data?, error?, meta? }\<close>; a missing property reads as
  \<^verbatim>\<open>undefined\<close>.\<close>

record QueryReturnValue =
  qr_data :: jsval
  qr_error :: jsval
  qr_meta :: jsval

text \<open>\<^verbatim>\<open>ThunkResult\<close> is \<^verbatim>\<open>{ fulfilledTimeStamp, result }\<close>.\<close>

record ThunkResult =
  thunk_fulfilledTimeStamp :: int
  thunk_result :: jsval

text \<open>What the payload creator returns: a thunk result, or the marker made by
  \<^verbatim>\<open>rejectWithValue\<close>.\<close>

datatype returned = Fulfill ThunkResult | RejectWithValue jsval

text \<open>
  The union of \<^verbatim>\<open>EndpointDefinitionWithQuery\<close> (\<^verbatim>\<open>query\<close>, optional
  \<^verbatim>\<open>transformResponse\<close>) and \<^verbatim>\<open>EndpointDefinitionWithQueryFn\<close> (\<^verbatim>\<open>queryFn\<close>, with
  \<^verbatim>\<open>transformResponse?: never\<close>). \<^verbatim>\<open>queryFn\<close> receives the argument, the extra options and
  a callback that invokes the transport.
\<close>

datatype 'u BaseEndpointDefinition =
    WithQuery
      "jsval \<Rightarrow> ('u, jsval) collab"
      "(jsval \<Rightarrow> jsval \<Rightarrow> ('u, jsval) collab) option"
  | WithQueryFn
      "jsval \<Rightarrow> jsval \<Rightarrow> (jsval \<Rightarrow> ('u, QueryReturnValue) collab) \<Rightarrow> ('u, QueryReturnValue) collab"

text \<open>The hooks receive the query argument and the \<^verbatim>\<open>queryApi\<close> object, of which the
  address of its \<^verbatim>\<open>context\<close> is kept; \<^verbatim>\<open>dispatch\<close> and \<^verbatim>\<open>getState\<close> are access to
  the world.\<close>

record 'u EndpointDefinition =
  base :: "'u BaseEndpointDefinition"
  extraOptions :: jsval
  onStart :: "(jsval \<Rightarrow> nat \<Rightarrow> ('u, unit) collab) option"
  onSuccess :: "(jsval \<Rightarrow> nat \<Rightarrow> jsval \<Rightarrow> jsval \<Rightarrow> ('u, unit) collab) option"
  onError :: "(jsval \<Rightarrow> nat \<Rightarrow> jsval \<Rightarrow> jsval \<Rightarrow> ('u, unit) collab) option"
  provides :: "ResultDescription option"
  invalidates :: "ResultDescription option"

subsection \<open>Executions: state, exceptions and a trace of calls\<close>

text \<open>The calls that \<^verbatim>\<open>executeEndpoint\<close> itself makes, with their arguments, in the order
  in which it makes them.\<close>

datatype event =
    CallOnStart jsval nat
  | CallQuery jsval
  | CallBaseQuery jsval jsval
  | CallQueryFn jsval jsval
  | CallOnSuccess jsval nat jsval jsval
  | CallDateNow
  | CallTransformResponse jsval jsval
  | CallOnError jsval nat jsval jsval

record 'u exec_state =
  world :: "'u world"
  allocated :: nat
  trace :: "event list"

type_synonym ('u, 'r) exec = "'u exec_state \<Rightarrow> 'u exec_state \<times> (thrown + 'r)"

definition ret :: "'r \<Rightarrow> ('u, 'r) exec" where
  "ret x = (\<lambda>s. (s, Inr x))"

definition throw :: "thrown \<Rightarrow> ('u, 'r) exec" where
  "throw e = (\<lambda>s. (s, Inl e))"

text \<open>Sequencing: a thrown value skips the rest.\<close>

definition bnd :: "('u, 'a) exec \<Rightarrow> ('a \<Rightarrow> ('u, 'b) exec) \<Rightarrow> ('u, 'b) exec" where
  "bnd m f = (\<lambda>s. case m s of (s', Inl e) \<Rightarrow> (s', Inl e) | (s', Inr x) \<Rightarrow> f x s')"

text \<open>\<^verbatim>\<open>try { m } catch (error) { h error }\<close>.\<close>

definition try_catch :: "('u, 'a) exec \<Rightarrow> (thrown \<Rightarrow> ('u, 'a) exec) \<Rightarrow> ('u, 'a) exec" where
  "try_catch m h = (\<lambda>s. case m s of (s', Inl e) \<Rightarrow> h e s' | (s', Inr x) \<Rightarrow> (s', Inr x))"

text \<open>A call of application code (awaited where the source awaits it): the call is
  recorded, then the world changes as the callee says.\<close>

definition call :: "event \<Rightarrow> ('u, 'r) collab \<Rightarrow> ('u, 'r) exec" where
  "call ev c = (\<lambda>s. case c (world s) of
                      (w', r) \<Rightarrow> (s\<lparr>world := w', trace := trace s @ [ev]\<rparr>, r))"

text \<open>\<^verbatim>\<open>if (hook) hook(...)\<close> for an optional hook.\<close>

definition call_if_defined :: "event \<Rightarrow> ('u, unit) collab option \<Rightarrow> ('u, unit) exec" where
  "call_if_defined ev hook = (case hook of None \<Rightarrow> ret () | Some c \<Rightarrow> call ev c)"

text \<open>\<^verbatim>\<open>const context = {}\<close>: a new empty object at the next free address.\<close>

definition new_context :: "('u, nat) exec" where
  "new_context =
     (\<lambda>s. (s\<lparr>world := (world s)\<lparr>contexts := (contexts (world s))(allocated s := Map.empty)\<rparr>,
              allocated := Suc (allocated s)\<rparr>,
           Inr (allocated s)))"

definition date_now :: "('u, int) exec" where
  "date_now = (\<lambda>s. (s\<lparr>trace := trace s @ [CallDateNow]\<rparr>, Inr (clock (world s))))"

subsection \<open>\<^verbatim>\<open>executeEndpoint\<close>\<close>

definition defaultTransformResponse :: "jsval \<Rightarrow> jsval \<Rightarrow> ('u, jsval) collab" where
  "defaultTransformResponse baseQueryReturnValue m = (\<lambda>w. (w, Inr baseQueryReturnValue))"

text \<open>The first statements of the \<^verbatim>\<open>try\<close> block: they compute \<^verbatim>\<open>result\<close> and choose
  \<^verbatim>\<open>transformResponse\<close>.\<close>

definition fetchResult ::
  "(jsval \<Rightarrow> jsval \<Rightarrow> ('u, QueryReturnValue) collab) \<Rightarrow> 'u EndpointDefinition \<Rightarrow> 'a ThunkArg_scheme
     \<Rightarrow> ('u, QueryReturnValue \<times> (jsval \<Rightarrow> jsval \<Rightarrow> ('u, jsval) collab)) exec" where
  "fetchResult baseQuery endpointDefinition arg =
     (case base endpointDefinition of
        WithQuery query transformResponse \<Rightarrow>
          bnd (call (CallQuery (originalArgs arg)) (query (originalArgs arg))) (\<lambda>request.
          bnd (call (CallBaseQuery request (extraOptions endpointDefinition))
                 (baseQuery request (extraOptions endpointDefinition))) (\<lambda>r.
          ret (r, case transformResponse of
                    None \<Rightarrow> defaultTransformResponse
                  | Some t \<Rightarrow> t)))
      | WithQueryFn queryFn \<Rightarrow>
          bnd (call (CallQueryFn (originalArgs arg) (extraOptions endpointDefinition))
                 (queryFn (originalArgs arg) (extraOptions endpointDefinition)
                    (\<lambda>a. baseQuery a (extraOptions endpointDefinition)))) (\<lambda>r.
          ret (r, defaultTransformResponse)))"

definition tryBlock ::
  "(jsval \<Rightarrow> jsval \<Rightarrow> ('u, QueryReturnValue) collab) \<Rightarrow> 'u EndpointDefinition \<Rightarrow> 'a ThunkArg_scheme
     \<Rightarrow> nat \<Rightarrow> ('u, returned) exec" where
  "tryBlock baseQuery endpointDefinition arg context =
     bnd (fetchResult baseQuery endpointDefinition arg) (\<lambda>(r, transformResponse).
     bnd (if js_truthy (qr_error r) then throw (HandledError (qr_error r) (qr_meta r))
          else ret ()) (\<lambda>_.
     bnd (call_if_defined (CallOnSuccess (originalArgs arg) context (qr_data r) (qr_meta r))
            (map_option (\<lambda>h. h (originalArgs arg) context (qr_data r) (qr_meta r))
               (onSuccess endpointDefinition))) (\<lambda>_.
     bnd date_now (\<lambda>ts.
     bnd (call (CallTransformResponse (qr_data r) (qr_meta r))
            (transformResponse (qr_data r) (qr_meta r))) (\<lambda>v.
     ret (Fulfill \<lparr>thunk_fulfilledTimeStamp = ts, thunk_result = v\<rparr>))))))"

definition catchBlock ::
  "'u EndpointDefinition \<Rightarrow> 'a ThunkArg_scheme \<Rightarrow> nat \<Rightarrow> thrown \<Rightarrow> ('u, returned) exec" where
  "catchBlock endpointDefinition arg context err =
     (let v = (case err of HandledError v m \<Rightarrow> v | Thrown e \<Rightarrow> e);
          m = (case err of HandledError v m \<Rightarrow> m | Thrown e \<Rightarrow> JUndefined)
      in bnd (call_if_defined (CallOnError (originalArgs arg) context v m)
                (map_option (\<lambda>h. h (originalArgs arg) context v m) (onError endpointDefinition)))
           (\<lambda>_. case err of
                   HandledError v m \<Rightarrow> ret (RejectWithValue v)
                 | Thrown e \<Rightarrow> throw err))"

text \<open>Reading a property of \<^verbatim>\<open>undefined\<close> throws a \<^verbatim>\<open>TypeError\<close>.\<close>

definition TypeError_value :: jsval where
  "TypeError_value = JObj [(''name'', JStr ''TypeError'')]"

text \<open>The statements before the \<^verbatim>\<open>try\<close> block: the definition is looked up, the context
  object is made, and \<^verbatim>\<open>onStart\<close> is called when it is defined.\<close>

definition startExecution ::
  "(string \<rightharpoonup> 'u EndpointDefinition) \<Rightarrow> 'a ThunkArg_scheme
     \<Rightarrow> ('u, nat \<times> 'u EndpointDefinition) exec" where
  "startExecution endpointDefinitions arg =
     bnd new_context (\<lambda>context.
       case endpointDefinitions (endpointName arg) of
         None \<Rightarrow> throw (Thrown TypeError_value)
       | Some endpointDefinition \<Rightarrow>
           bnd (call_if_defined (CallOnStart (originalArgs arg) context)
                  (map_option (\<lambda>h. h (originalArgs arg) context) (onStart endpointDefinition)))
             (\<lambda>_. ret (context, endpointDefinition)))"

definition executeEndpoint ::
  "(jsval \<Rightarrow> jsval \<Rightarrow> ('u, QueryReturnValue) collab) \<Rightarrow> (string \<rightharpoonup> 'u EndpointDefinition)
     \<Rightarrow> 'a ThunkArg_scheme \<Rightarrow> ('u, returned) exec" where
  "executeEndpoint baseQuery endpointDefinitions arg =
     bnd (startExecution endpointDefinitions arg) (\<lambda>(context, endpointDefinition).
       try_catch (tryBlock baseQuery endpointDefinition arg context)
         (catchBlock endpointDefinition arg context))"

subsection \<open>\<^verbatim>\<open>calculateProvidedByThunk\<close>\<close>

text \<open>The action a thunk ends with: \<^verbatim>\<open>fulfilled\<close> with a thunk result as payload, or
  \<^verbatim>\<open>rejected\<close> with the flag \<^verbatim>\<open>meta.rejectedWithValue\<close> and a payload; both carry the
  thunk argument in \<^verbatim>\<open>meta.arg\<close>.\<close>

datatype 'a thunk_action =
    FulfilledAction ThunkResult "'a ThunkArg_scheme"
  | RejectedAction jsval bool "'a ThunkArg_scheme"

fun isFulfilled :: "'a thunk_action \<Rightarrow> bool" where
  "isFulfilled (FulfilledAction p a) = True"
| "isFulfilled (RejectedAction p v a) = False"

fun isRejectedWithValue :: "'a thunk_action \<Rightarrow> bool" where
  "isRejectedWithValue (FulfilledAction p a) = False"
| "isRejectedWithValue (RejectedAction p v a) = v"

fun meta_arg :: "'a thunk_action \<Rightarrow> 'a ThunkArg_scheme" where
  "meta_arg (FulfilledAction p a) = a"
| "meta_arg (RejectedAction p v a) = a"

text \<open>\<^verbatim>\<open>action.payload.result\<close> and \<^verbatim>\<open>action.payload\<close>, read where the source reads
  them.\<close>

fun payload_result :: "'a thunk_action \<Rightarrow> jsval" where
  "payload_result (FulfilledAction p a) = thunk_result p"
| "payload_result (RejectedAction p v a) = JUndefined"

fun rejected_payload :: "'a thunk_action \<Rightarrow> jsval" where
  "rejected_payload (RejectedAction p v a) = p"
| "rejected_payload (FulfilledAction p a) = JUndefined"

datatype description_type = Provides | Invalidates

definition calculateProvidedByThunk ::
  "'a thunk_action \<Rightarrow> description_type \<Rightarrow> (string \<rightharpoonup> 'u EndpointDefinition)
     \<Rightarrow> (FullEntityDescription \<Rightarrow> FullEntityDescription)
     \<Rightarrow> js_error + FullEntityDescription list" where
  "calculateProvidedByThunk action ty endpointDefinitions assertEntityType =
     (case endpointDefinitions (endpointName (meta_arg action)) of
        None \<Rightarrow> Inl TypeError
      | Some d \<Rightarrow>
          Inr (calculateProvidedBy
                 (case ty of Provides \<Rightarrow> provides d | Invalidates \<Rightarrow> invalidates d)
                 (if isFulfilled action then payload_result action else JUndefined)
                 (if isRejectedWithValue action then rejected_payload action else JUndefined)
                 (originalArgs (meta_arg action))
                 assertEntityType))"

subsection \<open>Invalidation when a mutation settles\<close>

text \<open>
  Modelled from the spec: the invalidation step of the engine for the action that ends a
  mutation (core/buildMiddleware.ts is not among the sources). On mutation fulfilment or
  rejection it computes the invalidated tag set from the \<^verbatim>\<open>invalidates\<close> descriptor of the
  mutation, by the same evaluation contract, which is \<^verbatim>\<open>calculateProvidedByThunk\<close>, and
  schedules for a forced refetch every cache entry whose most recent provided tag set
  intersects the invalidated set. Tags match by type and id; an invalidated tag without
  an id matches every id of its type. The index lists, for each cache key, the tags that
  its latest fulfilment provided.
\<close>

definition tag_matches :: "FullEntityDescription \<Rightarrow> FullEntityDescription \<Rightarrow> bool" where
  "tag_matches invalidated provided =
     (entity_type invalidated = entity_type provided \<and>
      (entity_id invalidated = None \<or> entity_id invalidated = entity_id provided))"

definition invalidated_keys ::
  "FullEntityDescription list \<Rightarrow> (string \<times> FullEntityDescription list) list \<Rightarrow> string list" where
  "invalidated_keys tags index =
     map fst (filter (\<lambda>entry. list_ex (\<lambda>t. list_ex (tag_matches t) (snd entry)) tags) index)"

definition invalidate_on_mutation_settled ::
  "'a thunk_action \<Rightarrow> (string \<rightharpoonup> 'u EndpointDefinition)
     \<Rightarrow> (FullEntityDescription \<Rightarrow> FullEntityDescription)
     \<Rightarrow> (string \<times> FullEntityDescription list) list \<Rightarrow> js_error + string list" where
  "invalidate_on_mutation_settled action endpointDefinitions assertEntityType index =
     (case calculateProvidedByThunk action Invalidates endpointDefinitions assertEntityType of
        Inl e \<Rightarrow> Inl e
      | Inr tags \<Rightarrow> Inr (invalidated_keys tags index))"

subsection \<open>Dispatching the query thunk\<close>

text \<open>
  Modelled from the spec: the slice reducer for the lifecycle actions of the query thunk
  (core/buildSlice.ts is not among the sources). The cache entry of a key is created on the
  first dispatch for the key; a started execution sets its status to \<^verbatim>\<open>pending\<close> and
  records its request id, keeping the data of an earlier fulfilment; the entry then moves
  from \<^verbatim>\<open>pending\<close> to \<^verbatim>\<open>fulfilled\<close> or \<^verbatim>\<open>rejected\<close>; the response of a request whose id
  is not the entry's current \<^verbatim>\<open>requestId\<close> is discarded; a rejection keeps the data.
\<close>

definition pending_reducer :: "ApiState \<Rightarrow> string \<Rightarrow> string \<Rightarrow> ApiState" where
  "pending_reducer state key rid =
     state\<lparr>queries := (queries state)(key \<mapsto> (select key state)\<lparr>status := pending, requestId := Some rid\<rparr>)\<rparr>"

definition settled_reducer :: "ApiState \<Rightarrow> string \<Rightarrow> string \<Rightarrow> thrown + returned \<Rightarrow> ApiState" where
  "settled_reducer state key rid outcome =
     (case queries state key of
        None \<Rightarrow> state
      | Some q \<Rightarrow>
          if requestId q \<noteq> Some rid then state
          else state\<lparr>queries := (queries state)(key \<mapsto>
                 (case outcome of
                    Inr (Fulfill r) \<Rightarrow>
                      q\<lparr>status := fulfilled, data := Some (thunk_result r),
                        fulfilledTimeStamp := Some (thunk_fulfilledTimeStamp r)\<rparr>
                  | Inr (RejectWithValue v) \<Rightarrow> q\<lparr>status := rejected\<rparr>
                  | Inl e \<Rightarrow> q\<lparr>status := rejected\<rparr>))\<rparr>)"

text \<open>
  The engine: the cache state and the executions of \<^verbatim>\<open>executeEndpoint\<close> that have started
  and not yet settled, each with its cache key and request id. The query thunk is made by
  \<^verbatim>\<open>createAsyncThunk\<close> with \<^verbatim>\<open>executeEndpoint\<close> as payload creator and the run condition
  as \<^verbatim>\<open>condition\<close>: a dispatch evaluates the condition and, unless it is \<^verbatim>\<open>false\<close>,
  dispatches the pending action and starts the payload creator, all in one synchronous
  step; when the payload creator settles, its fulfilled or rejected action is dispatched.
\<close>

record engine =
  api :: ApiState
  in_flight :: "(string \<times> string) list"

datatype engine_event =
    DispatchQuery QueryThunkArg string int
  | Settle string string "thrown + returned"

fun engine_step :: "engine \<Rightarrow> engine_event \<Rightarrow> engine" where
  "engine_step e (DispatchQuery arg rid now) =
     (if condition (Some (api e)) arg now = Inr False then e
      else e\<lparr>api := pending_reducer (api e) (queryCacheKey arg) rid,
             in_flight := (queryCacheKey arg, rid) # in_flight e\<rparr>)"
| "engine_step e (Settle key rid outcome) =
     (if (key, rid) \<in> set (in_flight e)
      then e\<lparr>api := settled_reducer (api e) key rid outcome,
             in_flight := remove1 (key, rid) (in_flight e)\<rparr>
      else e)"

definition engine_run :: "engine \<Rightarrow> engine_event list \<Rightarrow> engine" where
  "engine_run e evs = foldl engine_step e evs"

text \<open>The executions in flight for a cache key.\<close>

definition in_flight_for :: "string \<Rightarrow> engine \<Rightarrow> (string \<times> string) list" where
  "in_flight_for key e = filter (\<lambda>x. fst x = key) (in_flight e)"

subsection \<open>Notions used to state the properties\<close>

text \<open>The invariant of the engine: no key has two executions in flight, and the cache
  entry of an execution in flight is pending under that execution's request id.\<close>

definition engine_ok :: "engine \<Rightarrow> bool" where
  "engine_ok e =
     ((\<forall>key. length (in_flight_for key e) \<le> 1) \<and>
      (\<forall>x \<in> set (in_flight e).
         \<exists>q. queries (api e) (fst x) = Some q \<and> status q = pending \<and> requestId q = Some (snd x)))"



text \<open>How the \<^verbatim>\<open>catch\<close> block ends: \<^verbatim>\<open>onError\<close>, when it is defined, is called with the
  value and the metadata; the execution then ends with the given outcome, unless
  \<^verbatim>\<open>onError\<close> throws, and then with what it threw.\<close>

definition after_onError ::
  "'u EndpointDefinition \<Rightarrow> 'a ThunkArg_scheme \<Rightarrow> nat \<Rightarrow> jsval \<Rightarrow> jsval \<Rightarrow> thrown + returned
     \<Rightarrow> 'u exec_state \<Rightarrow> 'u exec_state \<times> (thrown + returned)" where
  "after_onError d arg ctx v m outcome s =
     (case onError d of
        None \<Rightarrow> (s, outcome)
      | Some h \<Rightarrow>
          (case h (originalArgs arg) ctx v m (world s) of
             (w, res) \<Rightarrow>
               (s\<lparr>world := w, trace := trace s @ [CallOnError (originalArgs arg) ctx v m]\<rparr>,
                case res of Inl x \<Rightarrow> Inl x | Inr u \<Rightarrow> outcome)))"

subsection \<open>A sample application\<close>

text \<open>
  An endpoint in the manner of the lifecycle tests of the repository: \<^verbatim>\<open>onStart\<close> stashes
  the query argument in the context, \<^verbatim>\<open>onSuccess\<close> and \<^verbatim>\<open>onError\<close> write what they
  received, with the stashed value, to the store. The transport takes 150 ms and answers
  by the url; the response transformation takes 10 ms and wraps the data in an array.
\<close>

definition ex_onStart :: "jsval \<Rightarrow> nat \<Rightarrow> (jsval, unit) collab" where
  "ex_onStart a ctx w =
     (w\<lparr>contexts := (contexts w)(ctx := (contexts w ctx)(''startedWith'' \<mapsto> a))\<rparr>, Inr ())"

definition ex_stash :: "jsval world \<Rightarrow> nat \<Rightarrow> jsval" where
  "ex_stash w ctx = (case contexts w ctx ''startedWith'' of None \<Rightarrow> JUndefined | Some v \<Rightarrow> v)"

definition ex_onSuccess :: "jsval \<Rightarrow> nat \<Rightarrow> jsval \<Rightarrow> jsval \<Rightarrow> (jsval, unit) collab" where
  "ex_onSuccess a ctx d m w = (w\<lparr>store := JArr [JStr ''success'', ex_stash w ctx, d]\<rparr>, Inr ())"

definition ex_onError :: "jsval \<Rightarrow> nat \<Rightarrow> jsval \<Rightarrow> jsval \<Rightarrow> (jsval, unit) collab" where
  "ex_onError a ctx v m w = (w\<lparr>store := JArr [JStr ''error'', ex_stash w ctx, v, m]\<rparr>, Inr ())"

definition ex_throwing_onStart :: "jsval \<Rightarrow> nat \<Rightarrow> (jsval, unit) collab" where
  "ex_throwing_onStart a ctx w = (w, Inl (Thrown (JStr ''onStart failed'')))"

definition ex_throwing_onError :: "jsval \<Rightarrow> nat \<Rightarrow> jsval \<Rightarrow> jsval \<Rightarrow> (jsval, unit) collab" where
  "ex_throwing_onError a ctx v m w = (w, Inl (Thrown (JStr ''onError failed'')))"

definition ex_query :: "jsval \<Rightarrow> (jsval, jsval) collab" where
  "ex_query a w = (w, Inr (JObj [(''url'', a)]))"

definition ex_baseQuery :: "jsval \<Rightarrow> jsval \<Rightarrow> (jsval, QueryReturnValue) collab" where
  "ex_baseQuery request extra w =
     (w\<lparr>clock := clock w + 150\<rparr>,
      if request = JObj [(''url'', JStr ''/error'')]
      then Inr \<lparr>qr_data = JUndefined, qr_error = JObj [(''status'', JNum 500)],
                qr_meta = JStr ''meta''\<rparr>
      else if request = JObj [(''url'', JStr ''/empty-error'')]
      then Inr \<lparr>qr_data = JUndefined, qr_error = JStr [], qr_meta = JStr ''meta''\<rparr>
      else Inr \<lparr>qr_data = JObj [(''value'', JStr ''success'')], qr_error = JUndefined,
                qr_meta = JStr ''meta''\<rparr>)"

definition ex_transformResponse :: "jsval \<Rightarrow> jsval \<Rightarrow> (jsval, jsval) collab" where
  "ex_transformResponse d m w = (w\<lparr>clock := clock w + 10\<rparr>, Inr (JArr [d]))"

definition ex_throwing_transformResponse :: "jsval \<Rightarrow> jsval \<Rightarrow> (jsval, jsval) collab" where
  "ex_throwing_transformResponse d m w = (w, Inl (Thrown (JStr ''transform failed'')))"

definition ex_endpoint :: "jsval EndpointDefinition" where
  "ex_endpoint =
     \<lparr>base = WithQuery ex_query (Some ex_transformResponse), extraOptions = JUndefined,
      onStart = Some ex_onStart, onSuccess = Some ex_onSuccess, onError = Some ex_onError,
      provides = Some (DescriptionArray [TypeString ''User'']), invalidates = None\<rparr>"

definition ex_definitions :: "string \<rightharpoonup> jsval EndpointDefinition" where
  "ex_definitions =
     [''query'' \<mapsto> ex_endpoint,
      ''failingStart'' \<mapsto> ex_endpoint\<lparr>onStart := Some ex_throwing_onStart\<rparr>,
      ''failingOnError'' \<mapsto> ex_endpoint\<lparr>onError := Some ex_throwing_onError\<rparr>,
      ''failingTransform'' \<mapsto>
         ex_endpoint\<lparr>base := WithQuery ex_query (Some ex_throwing_transformResponse)\<rparr>]"

definition ex_state :: "jsval exec_state" where
  "ex_state =
     \<lparr>world = \<lparr>clock = 1000, contexts = (\<lambda>_. Map.empty), store = JNull\<rparr>,
      allocated = 0, trace = []\<rparr>"

definition ex_arg :: "string \<Rightarrow> jsval \<Rightarrow> ThunkArg" where
  "ex_arg ename a = \<lparr>originalArgs = a, endpointName = ename, startedTimeStamp = 1000\<rparr>"

text \<open>A cache with one entry, fulfilled at time 1000, and the arguments of a query thunk
  for it.\<close>

definition ex_cache :: ApiState where
  "ex_cache =
     \<lparr>queries = [''getUser(1)'' \<mapsto>
                   \<lparr>status = fulfilled, requestId = Some ''r0'', data = Some (JNum 1),
                    fulfilledTimeStamp = Some 1000\<rparr>],
      config = \<lparr>refetchOnMountOrArgChange = Boolean False\<rparr>\<rparr>"

definition ex_empty_cache :: ApiState where
  "ex_empty_cache =
     \<lparr>queries = Map.empty, config = \<lparr>refetchOnMountOrArgChange = Boolean False\<rparr>\<rparr>"

definition ex_query_arg :: "bool_or_number option \<Rightarrow> QueryThunkArg" where
  "ex_query_arg f =
     \<lparr>originalArgs = JNum 1, endpointName = ''getUser'', startedTimeStamp = 2000,
      queryCacheKey = ''getUser(1)'', subscribe = Some True, forceRefetch = f\<rparr>"

definition ex_serialize :: "jsval \<Rightarrow> string \<Rightarrow> string" where
  "ex_serialize a ename = (if a = JNum 1 then ename @ ''(1)'' else ename @ ''(?)'')"

text \<open>A mutation whose \<^verbatim>\<open>invalidates\<close> is a function of the result, the error and the
  argument, and a transport-free definition table holding it.\<close>

definition ex_invalidates :: "jsval \<Rightarrow> jsval \<Rightarrow> jsval \<Rightarrow> EntityDescription list" where
  "ex_invalidates res err a =
     (if err \<noteq> JUndefined then [TypeString ''Error'']
      else if res \<noteq> JUndefined then [TypeString ''Post'', Full \<lparr>entity_type = ''Post'', entity_id = Some (IdNumber 1)\<rparr>]
      else [])"

definition ex_mutation_definitions :: "string \<rightharpoonup> jsval EndpointDefinition" where
  "ex_mutation_definitions =
     [''updatePost'' \<mapsto> ex_endpoint\<lparr>provides := None, invalidates := Some (DescriptionFn ex_invalidates)\<rparr>]"

text \<open>An engine with an empty cache and nothing in flight, and two dispatches of the query
  thunk for the same key, the second one forced.\<close>

definition ex_engine :: engine where
  "ex_engine = \<lparr>api = ex_empty_cache, in_flight = []\<rparr>"

definition ex_first_dispatch :: engine_event where
  "ex_first_dispatch = DispatchQuery (ex_query_arg None) ''r1'' 2000"

definition ex_second_dispatch :: engine_event where
  "ex_second_dispatch = DispatchQuery (ex_query_arg (Some (Boolean True))) ''r2'' 2001"

text \<open>The tags that three cached queries provided at their latest fulfilment.\<close>

definition ex_provided :: "(string \<times> FullEntityDescription list) list" where
  "ex_provided =
     [(''getPosts'', [\<lparr>entity_type = ''Post'', entity_id = Some (IdNumber 1)\<rparr>,
                     \<lparr>entity_type = ''Post'', entity_id = Some (IdNumber 2)\<rparr>]),
      (''getErrorLog'', [\<lparr>entity_type = ''Error'', entity_id = Some (IdNumber 7)\<rparr>]),
      (''getUser(1)'', [\<lparr>entity_type = ''User'', entity_id = Some (IdNumber 1)\<rparr>])]"






section \<open>Properties\<close>

subsection \<open>The run condition\<close>

lemma condition_mounted:
  "condition (Some s) arg now =
     Inr (case queries s (queryCacheKey arg) of
            None \<Rightarrow> True
          | Some r \<Rightarrow>
              status r \<noteq> pending \<and>
              (case fulfilledTimeStamp r of
                 None \<Rightarrow> True
               | Some ts \<Rightarrow>
                   ts = 0 \<or>
                   (case refetchVal_of arg (refetchOnMountOrArgChange (config s)) of
                      None \<Rightarrow> False
                    | Some (Boolean b) \<Rightarrow> b
                    | Some (Number n) \<Rightarrow> n \<noteq> 0 \<and> real_of_int (now - ts) / 1000 \<ge> n)))"
  by (auto simp: condition_def Let_def split: option.splits bool_or_number.splits)

lemma condition_unmounted: "condition None arg now = Inl TypeError"
  by (simp add: condition_def)

lemma refetchVal_of_forceRefetch:
  "forceRefetch arg = Some v \<Longrightarrow> refetchVal_of arg b = Some v"
  by (simp add: refetchVal_of_def)

lemma condition_pending:
  "queries s (queryCacheKey arg) = Some q \<Longrightarrow> status q = pending \<Longrightarrow>
     condition (Some s) arg now = Inr False"
  by (simp add: condition_def)

text \<open>
  Claim C1 as stated does not hold. The cache holds an entry fulfilled at time 1000, the
  refetch value requested is the number 0, and one second has passed, so that
  \<open>(now - fulfilledTimeStamp) / 1000 \<ge> 0\<close>: the claim lets the query proceed, the run
  condition skips it, because \<^verbatim>\<open>if (refetchVal)\<close> takes the number 0 for no request.
\<close>

theorem condition_zero_refetch_counterexample:
  "condition (Some ex_cache) (ex_query_arg (Some (Number 0))) 2000 = Inr False
   \<and> fulfilledTimeStamp (the (queries ex_cache ''getUser(1)'')) = Some 1000
   \<and> real_of_int (2000 - 1000) / 1000 \<ge> (0 :: real)"
  by (simp add: condition_def refetchVal_of_def ex_cache_def ex_query_arg_def)

text \<open>
  Claim C1, amended. With the reducer mounted, the run condition returns a boolean and
  never throws. It skips (returns false) when the entry of the key is pending. Otherwise,
  when the entry has a truthy (present, non-zero) \<^verbatim>\<open>fulfilledTimeStamp\<close>, it looks at the
  refetch value, which is \<^verbatim>\<open>forceRefetch\<close> when that is given and
  \<^verbatim>\<open>subscribe && refetchOnMountOrArgChange\<close> otherwise: absent, \<^verbatim>\<open>false\<close> or the number
  0 skips; \<^verbatim>\<open>true\<close> proceeds; a non-zero number \<open>n\<close> proceeds iff
  \<open>(now - fulfilledTimeStamp) / 1000 \<ge> n\<close>. When the entry is absent or has no truthy
  \<^verbatim>\<open>fulfilledTimeStamp\<close> and is not pending, it proceeds. In particular
  \<^verbatim>\<open>forceRefetch: true\<close> proceeds unless the entry is pending.
\<close>

theorem condition_decides:
  "condition (Some s) arg now =
     Inr (case queries s (queryCacheKey arg) of
            None \<Rightarrow> True
          | Some r \<Rightarrow>
              status r \<noteq> pending \<and>
              (case fulfilledTimeStamp r of
                 None \<Rightarrow> True
               | Some ts \<Rightarrow>
                   ts = 0 \<or>
                   (case refetchVal_of arg (refetchOnMountOrArgChange (config s)) of
                      None \<Rightarrow> False
                    | Some (Boolean b) \<Rightarrow> b
                    | Some (Number n) \<Rightarrow> n \<noteq> 0 \<and> real_of_int (now - ts) / 1000 \<ge> n)))
   \<and> (forceRefetch arg = Some (Boolean True) \<longrightarrow>
        condition (Some s) arg now =
          Inr (case queries s (queryCacheKey arg) of
                 None \<Rightarrow> True
               | Some r \<Rightarrow> status r \<noteq> pending))"
proof (intro conjI impI)
  show "condition (Some s) arg now =
     Inr (case queries s (queryCacheKey arg) of
            None \<Rightarrow> True
          | Some r \<Rightarrow>
              status r \<noteq> pending \<and>
              (case fulfilledTimeStamp r of
                 None \<Rightarrow> True
               | Some ts \<Rightarrow>
                   ts = 0 \<or>
                   (case refetchVal_of arg (refetchOnMountOrArgChange (config s)) of
                      None \<Rightarrow> False
                    | Some (Boolean b) \<Rightarrow> b
                    | Some (Number n) \<Rightarrow> n \<noteq> 0 \<and> real_of_int (now - ts) / 1000 \<ge> n)))"
    by (rule condition_mounted)
next
  assume "forceRefetch arg = Some (Boolean True)"
  then have "refetchVal_of arg (refetchOnMountOrArgChange (config s)) = Some (Boolean True)"
    by (rule refetchVal_of_forceRefetch)
  then show "condition (Some s) arg now =
          Inr (case queries s (queryCacheKey arg) of
                 None \<Rightarrow> True
               | Some r \<Rightarrow> status r \<noteq> pending)"
    by (simp add: condition_mounted split: option.splits)
qed

text \<open>The amended claim at work: a forced refetch of the fulfilled entry proceeds, and
  so does a refetch with a threshold of half a second after one second.\<close>

theorem condition_decides_witness:
  "forceRefetch (ex_query_arg (Some (Boolean True))) = Some (Boolean True)
   \<and> condition (Some ex_cache) (ex_query_arg (Some (Boolean True))) 2000 = Inr True
   \<and> condition (Some ex_cache) (ex_query_arg (Some (Number 0.5))) 2000 = Inr True"
  using condition_decides [of ex_cache "ex_query_arg (Some (Boolean True))" 2000]
    condition_decides [of ex_cache "ex_query_arg (Some (Number 0.5))" 2000]
  by (simp add: ex_cache_def ex_query_arg_def refetchVal_of_def)

subsection \<open>One execution in flight per cache key\<close>

lemma not_skipped_nothing_in_flight:
  assumes "engine_ok e" and "condition (Some (api e)) arg now \<noteq> Inr False"
  shows "in_flight_for (queryCacheKey arg) e = []"
proof (rule ccontr)
  assume "in_flight_for (queryCacheKey arg) e \<noteq> []"
  then obtain x where x: "x \<in> set (in_flight e)" "fst x = queryCacheKey arg"
    by (auto simp: in_flight_for_def filter_empty_conv)
  with assms(1) obtain q
    where "queries (api e) (queryCacheKey arg) = Some q" "status q = pending"
    by (auto simp: engine_ok_def)
  then have "condition (Some (api e)) arg now = Inr False"
    by (rule condition_pending)
  with assms(2) show False by simp
qed

lemma engine_ok_dispatch:
  assumes "engine_ok e"
  shows "engine_ok (engine_step e (DispatchQuery arg rid now))"
proof (cases "condition (Some (api e)) arg now = Inr False")
  case True
  with assms show ?thesis by simp
next
  case False
  with assms have nf: "in_flight_for (queryCacheKey arg) e = []"
    by (rule not_skipped_nothing_in_flight)
  then have none: "\<forall>x \<in> set (in_flight e). fst x \<noteq> queryCacheKey arg"
    by (auto simp: in_flight_for_def filter_empty_conv)
  have cnt: "length (in_flight_for key (engine_step e (DispatchQuery arg rid now))) \<le> 1"
    for key
    using False nf assms by (auto simp: in_flight_for_def engine_ok_def)
  have ent: "\<exists>q. queries (api (engine_step e (DispatchQuery arg rid now))) (fst x) = Some q
                \<and> status q = pending \<and> requestId q = Some (snd x)"
    if "x \<in> set (in_flight (engine_step e (DispatchQuery arg rid now)))" for x
    using that False none assms by (auto simp: engine_ok_def pending_reducer_def)
  from cnt ent show ?thesis unfolding engine_ok_def by blast
qed

lemma length_filter_remove1: "length (filter P (remove1 x xs)) \<le> length (filter P xs)"
  by (induction xs) auto

lemma engine_ok_settle:
  assumes "engine_ok e"
  shows "engine_ok (engine_step e (Settle key rid outcome))"
proof (cases "(key, rid) \<in> set (in_flight e)")
  case False
  with assms show ?thesis by simp
next
  case True
  have one: "length (in_flight_for key e) \<le> 1"
    using assms by (simp add: engine_ok_def)
  have "in_flight_for key e \<noteq> []"
    using True by (force simp: in_flight_for_def filter_empty_conv)
  with one obtain y where y: "in_flight_for key e = [y]"
    by (cases "in_flight_for key e") auto
  have "(key, rid) \<in> set (in_flight_for key e)"
    using True by (simp add: in_flight_for_def)
  with y have yk: "y = (key, rid)" by simp
  have gone: "fst x \<noteq> key" if "x \<in> set (remove1 (key, rid) (in_flight e))" for x
  proof
    assume k: "fst x = key"
    have "filter (\<lambda>x. fst x = key) (remove1 (key, rid) (in_flight e))
            = remove1 (key, rid) (filter (\<lambda>x. fst x = key) (in_flight e))"
      by (simp add: filter_remove1)
    also have "\<dots> = []" using y yk by (simp add: in_flight_for_def)
    finally show False using that k by (auto simp: filter_empty_conv)
  qed
  have cnt: "length (in_flight_for k (engine_step e (Settle key rid outcome))) \<le> 1" for k
  proof -
    have "length (filter (\<lambda>x. fst x = k) (remove1 (key, rid) (in_flight e)))
            \<le> length (filter (\<lambda>x. fst x = k) (in_flight e))"
      by (rule length_filter_remove1)
    also have "\<dots> \<le> 1" using assms by (simp add: engine_ok_def in_flight_for_def)
    finally show ?thesis using True by (simp add: in_flight_for_def)
  qed
  have ent: "\<exists>q. queries (api (engine_step e (Settle key rid outcome))) (fst x) = Some q
                \<and> status q = pending \<and> requestId q = Some (snd x)"
    if "x \<in> set (in_flight (engine_step e (Settle key rid outcome)))" for x
  proof -
    from that True have x: "x \<in> set (remove1 (key, rid) (in_flight e))" by simp
    then have "fst x \<noteq> key" by (rule gone)
    moreover from x have "x \<in> set (in_flight e)"
      using notin_set_remove1 by fastforce
    ultimately show ?thesis using assms True
      by (auto simp: engine_ok_def settled_reducer_def split: option.splits)
  qed
  from cnt ent show ?thesis unfolding engine_ok_def by blast
qed

lemma engine_ok_step: "engine_ok e \<Longrightarrow> engine_ok (engine_step e ev)"
  by (cases ev) (simp_all only: engine_ok_dispatch engine_ok_settle)

lemma engine_ok_run: "engine_ok e \<Longrightarrow> engine_ok (engine_run e evs)"
  unfolding engine_run_def by (induction evs arbitrary: e) (simp_all add: engine_ok_step)

lemma engine_ok_idle: "in_flight e = [] \<Longrightarrow> engine_ok e"
  by (simp add: engine_ok_def in_flight_for_def)

lemma dispatch_while_in_flight:
  assumes "engine_ok e" and "in_flight_for (queryCacheKey arg) e \<noteq> []"
  shows "engine_step e (DispatchQuery arg rid now) = e"
proof -
  have "condition (Some (api e)) arg now = Inr False"
    using assms not_skipped_nothing_in_flight by blast
  then show ?thesis by simp
qed

text \<open>
  Claim C2. Whenever the cache entry of the key has status \<^verbatim>\<open>pending\<close>, the run condition
  returns false, whatever the arguments, the configuration and the time. Hence, from an
  engine with nothing in flight and through any sequence of dispatches of the query thunk
  and of settlements of its executions, every cache key has at most one execution in
  flight at any instant, and a dispatch for a key that has one in flight starts nothing
  and leaves the engine as it is.
\<close>

theorem one_execution_in_flight:
  "(queries s (queryCacheKey arg) = Some q \<longrightarrow> status q = pending \<longrightarrow>
      condition (Some s) arg now = Inr False)
   \<and> (in_flight e = [] \<longrightarrow> length (in_flight_for key (engine_run e evs)) \<le> 1)
   \<and> (in_flight e = [] \<longrightarrow> in_flight_for (queryCacheKey arg') (engine_run e evs) \<noteq> [] \<longrightarrow>
        engine_step (engine_run e evs) (DispatchQuery arg' rid now') = engine_run e evs)"
proof (intro conjI impI)
  assume "queries s (queryCacheKey arg) = Some q" "status q = pending"
  then show "condition (Some s) arg now = Inr False" by (rule condition_pending)
next
  assume "in_flight e = []"
  then have "engine_ok (engine_run e evs)" by (simp add: engine_ok_idle engine_ok_run)
  then show "length (in_flight_for key (engine_run e evs)) \<le> 1" by (simp add: engine_ok_def)
next
  assume "in_flight e = []" and busy: "in_flight_for (queryCacheKey arg') (engine_run e evs) \<noteq> []"
  then have "engine_ok (engine_run e evs)" by (simp add: engine_ok_idle engine_ok_run)
  then show "engine_step (engine_run e evs) (DispatchQuery arg' rid now') = engine_run e evs"
    using busy by (rule dispatch_while_in_flight)
qed

text \<open>Two dispatches for the same key on an empty cache, the second one forced: the
  first starts an execution and leaves the entry pending, the second finds it pending and
  starts nothing.\<close>

theorem one_execution_in_flight_witness:
  "in_flight ex_engine = []
   \<and> in_flight (engine_run ex_engine [ex_first_dispatch]) = [(''getUser(1)'', ''r1'')]
   \<and> map_option status (queries (api (engine_run ex_engine [ex_first_dispatch])) ''getUser(1)'')
       = Some pending
   \<and> condition (Some (api (engine_run ex_engine [ex_first_dispatch])))
        (ex_query_arg (Some (Boolean True))) 2001 = Inr False
   \<and> engine_step (engine_run ex_engine [ex_first_dispatch]) ex_second_dispatch
       = engine_run ex_engine [ex_first_dispatch]
   \<and> length (in_flight_for ''getUser(1)''
        (engine_run ex_engine [ex_first_dispatch, ex_second_dispatch])) \<le> 1"
  using one_execution_in_flight
    [of "api (engine_run ex_engine [ex_first_dispatch])" "ex_query_arg (Some (Boolean True))"
        "the (queries (api (engine_run ex_engine [ex_first_dispatch])) ''getUser(1)'')" 2001
        ex_engine "''getUser(1)''" "[ex_first_dispatch]"
        "ex_query_arg (Some (Boolean True))" "''r2''" 2001]
    one_execution_in_flight
    [of _ "ex_query_arg None" _ _
        ex_engine "''getUser(1)''" "[ex_first_dispatch, ex_second_dispatch]"]
  by (simp add: engine_run_def condition_def refetchVal_of_def pending_reducer_def select_def
        defaultQuerySubState_def ex_empty_cache_def ex_query_arg_def in_flight_for_def
        ex_engine_def ex_first_dispatch_def ex_second_dispatch_def)

subsection \<open>Entity descriptions\<close>

text \<open>
  Claim C4. Let \<^verbatim>\<open>assertEntityTypes\<close> return its argument, as its type
  \<^verbatim>\<open><T>(t: T) => T\<close> says. For a descriptor that is a function, \<^verbatim>\<open>calculateProvidedBy\<close>
  returns the descriptor applied to the result, the error and the argument, with every
  bare string \<open>s\<close> of the output expanded to \<^verbatim>\<open>{ type: s }\<close> and every object kept as it
  is; for a static array it returns the same expansion of the array, whatever the result,
  the error and the argument; for an absent descriptor it returns the empty list.
\<close>

theorem calculateProvidedBy_expands:
  assumes "\<And>t. assertEntityTypes t = t"
  shows "calculateProvidedBy (Some (DescriptionFn f)) res err queryArg assertEntityTypes
           = map expandEntityDescription (f res err queryArg)
         \<and> calculateProvidedBy (Some (DescriptionArray xs)) res err queryArg assertEntityTypes
           = map expandEntityDescription xs
         \<and> calculateProvidedBy None res err queryArg assertEntityTypes = []
         \<and> expandEntityDescription (TypeString s) = \<lparr>entity_type = s, entity_id = None\<rparr>
         \<and> expandEntityDescription (Full d) = d"
proof -
  have "map assertEntityTypes ys = ys" for ys
    by (induction ys) (simp_all add: assms)
  then show ?thesis
    by (simp add: calculateProvidedBy_def expandEntityDescription_def del: map_map)
qed

text \<open>The function descriptor of the sample mutation, after a fulfilment, and a static
  array.\<close>

theorem calculateProvidedBy_expands_witness:
  "(\<forall>t :: FullEntityDescription. (\<lambda>t. t) t = t)
   \<and> calculateProvidedBy (Some (DescriptionFn ex_invalidates)) (JNum 7) JUndefined (JNum 1) (\<lambda>t. t)
       = [\<lparr>entity_type = ''Post'', entity_id = None\<rparr>,
          \<lparr>entity_type = ''Post'', entity_id = Some (IdNumber 1)\<rparr>]
   \<and> calculateProvidedBy (Some (DescriptionArray [TypeString ''User''])) (JNum 7) JUndefined (JNum 1)
        (\<lambda>t. t)
       = [\<lparr>entity_type = ''User'', entity_id = None\<rparr>]"
  using calculateProvidedBy_expands
    [of "\<lambda>t. t" ex_invalidates "JNum 7" JUndefined "JNum 1" "[TypeString ''User'']"]
  by (simp add: ex_invalidates_def expandEntityDescription_def)

lemma calculateProvidedByThunk_found:
  assumes "endpointDefinitions (endpointName (meta_arg action)) = Some d"
  shows "calculateProvidedByThunk action Invalidates endpointDefinitions assertEntityType
           = Inr (calculateProvidedBy (invalidates d)
                    (if isFulfilled action then payload_result action else JUndefined)
                    (if isRejectedWithValue action then rejected_payload action else JUndefined)
                    (originalArgs (meta_arg action)) assertEntityType)"
  using assms by (simp add: calculateProvidedByThunk_def)

lemma calculateProvidedBy_identity:
  assumes "\<And>t. assertEntityTypes t = t"
  shows "calculateProvidedBy description res err queryArg assertEntityTypes
           = (case description of
                None \<Rightarrow> []
              | Some (DescriptionArray xs) \<Rightarrow> map expandEntityDescription xs
              | Some (DescriptionFn f) \<Rightarrow> map expandEntityDescription (f res err queryArg))"
proof -
  have "map assertEntityTypes ys = ys" for ys
    by (induction ys) (simp_all add: assms)
  then show ?thesis
    by (simp add: calculateProvidedBy_def del: map_map
          split: option.splits ResultDescription.splits)
qed

text \<open>
  Claim C6. Let \<^verbatim>\<open>assertEntityType\<close> return its argument. When a mutation ends rejected
  with a value, the invalidated tag set is still computed, and the cache entries whose
  provided tags it meets are scheduled for a refetch, as on fulfilment. The
  \<^verbatim>\<open>invalidates\<close> descriptor is evaluated by the same contract in both cases:
  \<^verbatim>\<open>calculateProvidedByThunk\<close> passes as result the result of the fulfilled payload when
  the action is fulfilled and \<^verbatim>\<open>undefined\<close> otherwise, as error the rejection payload when
  the action is rejected with a value and \<^verbatim>\<open>undefined\<close> otherwise, and the original
  argument. So a descriptor function receives \<^verbatim>\<open>(undefined, payload, arg)\<close> on a rejection
  with a value and \<^verbatim>\<open>(result, undefined, arg)\<close> on a fulfilment, and a static array
  invalidates the same tags in both cases.
\<close>

theorem invalidation_on_rejection:
  assumes "endpointDefinitions (endpointName a) = Some d"
    and "\<And>t. assertEntityType t = t"
  shows "invalidate_on_mutation_settled (RejectedAction p True a) endpointDefinitions
             assertEntityType index
           = Inr (invalidated_keys
                    (case invalidates d of
                       None \<Rightarrow> []
                     | Some (DescriptionArray xs) \<Rightarrow> map expandEntityDescription xs
                     | Some (DescriptionFn f) \<Rightarrow>
                         map expandEntityDescription (f JUndefined p (originalArgs a)))
                    index)
         \<and> invalidate_on_mutation_settled (FulfilledAction r a) endpointDefinitions
             assertEntityType index
           = Inr (invalidated_keys
                    (case invalidates d of
                       None \<Rightarrow> []
                     | Some (DescriptionArray xs) \<Rightarrow> map expandEntityDescription xs
                     | Some (DescriptionFn f) \<Rightarrow>
                         map expandEntityDescription (f (thunk_result r) JUndefined (originalArgs a)))
                    index)
         \<and> calculateProvidedByThunk (RejectedAction p True a) Invalidates endpointDefinitions
             assertEntityType
           = Inr (calculateProvidedBy (invalidates d) JUndefined p (originalArgs a)
                    assertEntityType)
         \<and> calculateProvidedByThunk (FulfilledAction r a) Invalidates endpointDefinitions
             assertEntityType
           = Inr (calculateProvidedBy (invalidates d) (thunk_result r) JUndefined (originalArgs a)
                    assertEntityType)
         \<and> calculateProvidedByThunk (RejectedAction p False a) Invalidates endpointDefinitions
             assertEntityType
           = Inr (calculateProvidedBy (invalidates d) JUndefined JUndefined (originalArgs a)
                    assertEntityType)"
proof -
  have rejected: "calculateProvidedByThunk (RejectedAction p True a) Invalidates
                     endpointDefinitions assertEntityType
                   = Inr (calculateProvidedBy (invalidates d) JUndefined p (originalArgs a)
                            assertEntityType)"
    using calculateProvidedByThunk_found [of endpointDefinitions "RejectedAction p True a" d]
      assms(1) by simp
  have fulfilled: "calculateProvidedByThunk (FulfilledAction r a) Invalidates
                      endpointDefinitions assertEntityType
                    = Inr (calculateProvidedBy (invalidates d) (thunk_result r) JUndefined
                             (originalArgs a) assertEntityType)"
    using calculateProvidedByThunk_found [of endpointDefinitions "FulfilledAction r a" d]
      assms(1) by simp
  have plain: "calculateProvidedByThunk (RejectedAction p False a) Invalidates
                  endpointDefinitions assertEntityType
                = Inr (calculateProvidedBy (invalidates d) JUndefined JUndefined
                         (originalArgs a) assertEntityType)"
    using calculateProvidedByThunk_found [of endpointDefinitions "RejectedAction p False a" d]
      assms(1) by simp
  note tags = calculateProvidedBy_identity [OF assms(2)]
  show ?thesis
    by (simp add: invalidate_on_mutation_settled_def rejected fulfilled plain tags)
qed

text \<open>The sample mutation: rejected with the value 500 it invalidates the tag
  \<^verbatim>\<open>Error\<close> and the error log is refetched; fulfilled with the result 7 it invalidates the
  posts.\<close>

theorem invalidation_on_rejection_witness:
  "ex_mutation_definitions (endpointName (ex_arg ''updatePost'' (JNum 1)))
     = Some (ex_endpoint\<lparr>provides := None, invalidates := Some (DescriptionFn ex_invalidates)\<rparr>)
   \<and> invalidate_on_mutation_settled
        (RejectedAction (JNum 500) True (ex_arg ''updatePost'' (JNum 1)))
        ex_mutation_definitions (\<lambda>t. t) ex_provided
       = Inr [''getErrorLog'']
   \<and> invalidate_on_mutation_settled
        (FulfilledAction \<lparr>thunk_fulfilledTimeStamp = 1150, thunk_result = JNum 7\<rparr>
           (ex_arg ''updatePost'' (JNum 1)))
        ex_mutation_definitions (\<lambda>t. t) ex_provided
       = Inr [''getPosts'']
   \<and> calculateProvidedByThunk (RejectedAction (JNum 500) True (ex_arg ''updatePost'' (JNum 1)))
        Invalidates ex_mutation_definitions (\<lambda>t. t)
       = Inr [\<lparr>entity_type = ''Error'', entity_id = None\<rparr>]"
  using invalidation_on_rejection
    [where endpointDefinitions = ex_mutation_definitions
       and a = "ex_arg ''updatePost'' (JNum 1)"
       and d = "ex_endpoint\<lparr>provides := None, invalidates := Some (DescriptionFn ex_invalidates)\<rparr>"
       and assertEntityType = "\<lambda>t. t" and p = "JNum 500" and index = ex_provided
       and r = "\<lparr>thunk_fulfilledTimeStamp = 1150, thunk_result = JNum 7\<rparr>"]
  by (simp add: ex_mutation_definitions_def ex_arg_def ex_endpoint_def ex_invalidates_def
        ex_provided_def invalidated_keys_def tag_matches_def calculateProvidedBy_def
        expandEntityDescription_def)

subsection \<open>Prefetching\<close>

lemma condition_initiate:
  "condition (Some st) (initiate ser (Initiate e a f) now') now' =
     Inr (status (select (ser a e) st) \<noteq> pending \<and>
          (f \<or> \<not> truthy_ts (fulfilledTimeStamp (select (ser a e) st))))"
  by (auto simp: condition_def initiate_def refetchVal_of_def select_def
        defaultQuerySubState_def Let_def split: option.splits)

lemma prefetchThunk_ifOlderThan:
  assumes "force options \<noteq> Some True" and "ifOlderThan options = Some (JsNumber n)"
  shows "prefetchThunk ser e a options st now =
           (if n = 0 then [Initiate e a False]
            else (case fulfilledTimeStamp (select (ser a e) st) of
                    None \<Rightarrow> [Initiate e a True]
                  | Some ts \<Rightarrow>
                      if ts = 0 \<or> real_of_int (now - ts) / 1000 \<ge> n then [Initiate e a True]
                      else []))"
  using assms
  by (cases "force options")
     (auto simp: prefetchThunk_def hasTheForce_def hasMaxAge_def Let_def split: option.splits)

text \<open>
  Claim C5 as stated does not hold. The entry of the key was fulfilled at time 1000, the
  prefetch comes at time 61000 with \<^verbatim>\<open>ifOlderThan: 0\<close> and no \<^verbatim>\<open>force\<close>, so that
  \<open>(now - fulfilledTimeStamp) / 1000 \<ge> 0\<close>: the claim has the query performed. The thunk
  takes the number 0 for no option (\<^verbatim>\<open>else if (maxAge)\<close>), dispatches the query with
  \<^verbatim>\<open>forceRefetch: false\<close>, and the run condition skips it.
\<close>

theorem prefetch_ifOlderThan_zero_counterexample:
  "prefetchThunk ex_serialize ''getUser'' (JNum 1)
      \<lparr>force = None, ifOlderThan = Some (JsNumber 0)\<rparr> ex_cache 61000
     = [Initiate ''getUser'' (JNum 1) False]
   \<and> \<not> prefetch_performs ex_serialize ''getUser'' (JNum 1)
        \<lparr>force = None, ifOlderThan = Some (JsNumber 0)\<rparr> ex_cache 61000 61000
   \<and> fulfilledTimeStamp (select (ex_serialize (JNum 1) ''getUser'') ex_cache) = Some 1000
   \<and> real_of_int (61000 - 1000) / 1000 \<ge> (0 :: real)"
  by (simp add: prefetch_performs_def prefetchThunk_def hasTheForce_def hasMaxAge_def
        condition_def initiate_def
        refetchVal_of_def select_def ex_serialize_def ex_cache_def)

text \<open>
  Claim C5, amended. Let the prefetch thunk be called without \<^verbatim>\<open>force: true\<close> and with a
  numeric \<^verbatim>\<open>ifOlderThan\<close> of \<open>n\<close>. For \<open>n \<noteq> 0\<close> it dispatches the query, with
  \<^verbatim>\<open>forceRefetch: true\<close>, iff the entry of the key has no truthy (present, non-zero)
  \<^verbatim>\<open>fulfilledTimeStamp\<close> or \<open>(now - fulfilledTimeStamp) / 1000 \<ge> n\<close>, and nothing otherwise.
  For \<open>n = 0\<close> the option counts as not given: the thunk dispatches the query with
  \<^verbatim>\<open>forceRefetch: false\<close>. In both cases the query is performed iff the entry is not
  pending and has no truthy \<^verbatim>\<open>fulfilledTimeStamp\<close>, or is not pending, \<open>n \<noteq> 0\<close> and
  \<open>(now - fulfilledTimeStamp) / 1000 \<ge> n\<close>.
\<close>

theorem prefetch_ifOlderThan_decides:
  assumes "force options \<noteq> Some True" and "ifOlderThan options = Some (JsNumber n)"
  shows "prefetchThunk ser e a options st now =
           (if n = 0 then [Initiate e a False]
            else (case fulfilledTimeStamp (select (ser a e) st) of
                    None \<Rightarrow> [Initiate e a True]
                  | Some ts \<Rightarrow>
                      if ts = 0 \<or> real_of_int (now - ts) / 1000 \<ge> n then [Initiate e a True]
                      else []))
         \<and> (prefetch_performs ser e a options st now now' \<longleftrightarrow>
              status (select (ser a e) st) \<noteq> pending \<and>
              (case fulfilledTimeStamp (select (ser a e) st) of
                 None \<Rightarrow> True
               | Some ts \<Rightarrow> ts = 0 \<or> (n \<noteq> 0 \<and> real_of_int (now - ts) / 1000 \<ge> n)))"
proof
  show thunk: "prefetchThunk ser e a options st now =
           (if n = 0 then [Initiate e a False]
            else (case fulfilledTimeStamp (select (ser a e) st) of
                    None \<Rightarrow> [Initiate e a True]
                  | Some ts \<Rightarrow>
                      if ts = 0 \<or> real_of_int (now - ts) / 1000 \<ge> n then [Initiate e a True]
                      else []))"
    using assms by (rule prefetchThunk_ifOlderThan)
  show "prefetch_performs ser e a options st now now' \<longleftrightarrow>
              status (select (ser a e) st) \<noteq> pending \<and>
              (case fulfilledTimeStamp (select (ser a e) st) of
                 None \<Rightarrow> True
               | Some ts \<Rightarrow> ts = 0 \<or> (n \<noteq> 0 \<and> real_of_int (now - ts) / 1000 \<ge> n))"
    unfolding prefetch_performs_def thunk
    by (auto simp: condition_initiate split: option.splits)
qed

text \<open>The example of the specification: an entry fulfilled 60 seconds ago and
  \<^verbatim>\<open>ifOlderThan: 30\<close>; and the same entry with \<^verbatim>\<open>ifOlderThan: 90\<close>.\<close>

theorem prefetch_ifOlderThan_decides_witness:
  "force \<lparr>force = None, ifOlderThan = Some (JsNumber 30)\<rparr> \<noteq> Some True
   \<and> prefetchThunk ex_serialize ''getUser'' (JNum 1)
        \<lparr>force = None, ifOlderThan = Some (JsNumber 30)\<rparr> ex_cache 61000
       = [Initiate ''getUser'' (JNum 1) True]
   \<and> prefetch_performs ex_serialize ''getUser'' (JNum 1)
        \<lparr>force = None, ifOlderThan = Some (JsNumber 30)\<rparr> ex_cache 61000 61000
   \<and> \<not> prefetch_performs ex_serialize ''getUser'' (JNum 1)
        \<lparr>force = None, ifOlderThan = Some (JsNumber 90)\<rparr> ex_cache 61000 61000"
  using prefetch_ifOlderThan_decides
    [of "\<lparr>force = None, ifOlderThan = Some (JsNumber 30)\<rparr>" 30 ex_serialize "''getUser''" "JNum 1"
        ex_cache 61000 61000]
    prefetch_ifOlderThan_decides
    [of "\<lparr>force = None, ifOlderThan = Some (JsNumber 90)\<rparr>" 90 ex_serialize "''getUser''" "JNum 1"
        ex_cache 61000 61000]
  by (simp add: select_def ex_serialize_def ex_cache_def)

text \<open>
  Claim C7. Called with no \<^verbatim>\<open>force\<close> and no \<^verbatim>\<open>ifOlderThan\<close> option, the prefetch thunk
  dispatches the query with \<^verbatim>\<open>forceRefetch: false\<close>, and the query is performed iff the
  entry of the key is not pending and has no truthy (present, non-zero)
  \<^verbatim>\<open>fulfilledTimeStamp\<close>, that is, iff no fulfilled entry exists for the key and the key is
  not pending.
\<close>

theorem prefetch_without_options:
  "prefetchThunk ser e a \<lparr>force = None, ifOlderThan = None\<rparr> st now = [Initiate e a False]
   \<and> (prefetch_performs ser e a \<lparr>force = None, ifOlderThan = None\<rparr> st now now' \<longleftrightarrow>
        status (select (ser a e) st) \<noteq> pending \<and>
        (case fulfilledTimeStamp (select (ser a e) st) of
           None \<Rightarrow> True
         | Some ts \<Rightarrow> ts = 0))"
proof
  show thunk: "prefetchThunk ser e a \<lparr>force = None, ifOlderThan = None\<rparr> st now
                 = [Initiate e a False]"
    by (simp add: prefetchThunk_def hasTheForce_def hasMaxAge_def)
  show "prefetch_performs ser e a \<lparr>force = None, ifOlderThan = None\<rparr> st now now' \<longleftrightarrow>
        status (select (ser a e) st) \<noteq> pending \<and>
        (case fulfilledTimeStamp (select (ser a e) st) of
           None \<Rightarrow> True
         | Some ts \<Rightarrow> ts = 0)"
    unfolding prefetch_performs_def thunk
    by (auto simp: condition_initiate split: option.splits)
qed

text \<open>The examples of the specification: no entry, and an entry fulfilled at this very
  moment.\<close>

theorem prefetch_without_options_witness:
  "prefetch_performs ex_serialize ''getUser'' (JNum 1) \<lparr>force = None, ifOlderThan = None\<rparr>
      ex_empty_cache 1000 1000
   \<and> \<not> prefetch_performs ex_serialize ''getUser'' (JNum 1) \<lparr>force = None, ifOlderThan = None\<rparr>
        ex_cache 1000 1000"
  using prefetch_without_options [of ex_serialize "''getUser''" "JNum 1" ex_empty_cache 1000 1000]
    prefetch_without_options [of ex_serialize "''getUser''" "JNum 1" ex_cache 1000 1000]
  by (simp add: select_def defaultQuerySubState_def ex_serialize_def ex_cache_def
        ex_empty_cache_def)

subsection \<open>Manual cache patches\<close>

text \<open>
  Claim C8 as stated does not hold. On a cache with no entry for the key,
  \<^verbatim>\<open>patchQueryResult\<close> dispatches the action \<^verbatim>\<open>queryResultPatched\<close>: it never reads the
  state.
\<close>

theorem patchQueryResult_counterexample:
  "queries ex_empty_cache (ex_serialize (JNum 1) ''getUser'') = None
   \<and> patchQueryResult (\<lambda>a (d :: unit option) n. ex_serialize a n) Map.empty ''getUser'' (JNum 1) []
       = [queryResultPatched ''getUser(1)'' []]"
  by (simp add: patchQueryResult_def ex_serialize_def ex_empty_cache_def)

text \<open>
  Claim C8, amended. When no cache entry exists for the computed key,
  \<^verbatim>\<open>updateQueryResult\<close> returns the empty patch collection and dispatches nothing.
  \<^verbatim>\<open>patchQueryResult\<close> returns nothing and always dispatches one action
  \<^verbatim>\<open>queryResultPatched\<close> with the computed key and the given patches, whether an entry
  exists or not. Both leave a cache without an entry for the key as it is: the reducer
  ignores the action of \<^verbatim>\<open>patchQueryResult\<close>.
\<close>

theorem manual_patches_without_entry:
  "(queries st (serializeQueryArgs args (endpointDefinitions e) e) = None \<longrightarrow>
      updateQueryResult isDraftable produceWithPatches serializeQueryArgs endpointDefinitions
          e args updateRecipe st
        = (\<lparr>patches = [], inversePatches = []\<rparr>, []))
   \<and> patchQueryResult serializeQueryArgs endpointDefinitions e args ps
       = [queryResultPatched (serializeQueryArgs args (endpointDefinitions e) e) ps]
   \<and> (queries st (serializeQueryArgs args (endpointDefinitions e) e) = None \<longrightarrow>
        foldl (queryResultPatched_reducer applyPatches) st
          (patchQueryResult serializeQueryArgs endpointDefinitions e args ps) = st
        \<and> foldl (queryResultPatched_reducer applyPatches) st
            (snd (updateQueryResult isDraftable produceWithPatches serializeQueryArgs
                    endpointDefinitions e args updateRecipe st)) = st)"
  by (simp add: updateQueryResult_def patchQueryResult_def select_def defaultQuerySubState_def
        queryResultPatched_reducer_def)

text \<open>An update of the missing entry does nothing; an update of the existing entry, whose
  data is not draftable, replaces the data and dispatches the patch.\<close>

theorem manual_patches_without_entry_witness:
  "queries ex_empty_cache (ex_serialize (JNum 1) ''getUser'') = None
   \<and> updateQueryResult (\<lambda>v. False) (\<lambda>v r. (r v, [], [])) (\<lambda>a (d :: unit option) n. ex_serialize a n)
        Map.empty ''getUser'' (JNum 1) (\<lambda>v. JNum 2) ex_empty_cache
       = (\<lparr>patches = [], inversePatches = []\<rparr>, [])
   \<and> foldl (queryResultPatched_reducer (\<lambda>d ps. JNum 2)) ex_empty_cache
        (patchQueryResult (\<lambda>a (d :: unit option) n. ex_serialize a n) Map.empty ''getUser'' (JNum 1)
           [\<lparr>op = ''replace'', path = [], patch_value = JNum 2\<rparr>])
       = ex_empty_cache
   \<and> updateQueryResult (\<lambda>v. False) (\<lambda>v r. (r v, [], [])) (\<lambda>a (d :: unit option) n. ex_serialize a n)
        Map.empty ''getUser'' (JNum 1) (\<lambda>v. JNum 2) ex_cache
       = (\<lparr>patches = [\<lparr>op = ''replace'', path = [], patch_value = JNum 2\<rparr>],
           inversePatches = [\<lparr>op = ''replace'', path = [], patch_value = JNum 1\<rparr>]\<rparr>,
          [queryResultPatched ''getUser(1)''
             [\<lparr>op = ''replace'', path = [], patch_value = JNum 2\<rparr>]])"
  using manual_patches_without_entry
    [of ex_empty_cache "\<lambda>a (d :: unit option) n. ex_serialize a n" "JNum 1" Map.empty "''getUser''"
        "\<lambda>v. False" "\<lambda>v r. (r v, [], [])" "\<lambda>v. JNum 2"
        "[\<lparr>op = ''replace'', path = [], patch_value = JNum 2\<rparr>]" "\<lambda>d ps. JNum 2"]
  by (simp add: updateQueryResult_def patchQueryResult_def select_def ex_serialize_def
        ex_cache_def ex_empty_cache_def)

subsection \<open>Executions\<close>













lemma startExecution_onStart:
  assumes "defs (endpointName arg) = Some d" and "onStart d = Some h"
  shows "startExecution defs arg s =
           (case h (originalArgs arg) (allocated s) (world (fst (new_context s))) of
              (w, r) \<Rightarrow>
                ((fst (new_context s))
                   \<lparr>world := w, trace := trace s @ [CallOnStart (originalArgs arg) (allocated s)]\<rparr>,
                 case r of Inl x \<Rightarrow> Inl x | Inr u \<Rightarrow> Inr (allocated s, d)))"
  using assms
  by (auto simp: startExecution_def new_context_def bnd_def ret_def call_if_defined_def call_def
        split: prod.splits sum.splits)

lemma executeEndpoint_start_throws:
  "startExecution defs arg s = (sa, Inl x) \<Longrightarrow> executeEndpoint bq defs arg s = (sa, Inl x)"
  by (simp add: executeEndpoint_def bnd_def)

lemma executeEndpoint_started:
  "startExecution defs arg s = (sa, Inr (ctx, d)) \<Longrightarrow>
     executeEndpoint bq defs arg s = try_catch (tryBlock bq d arg ctx) (catchBlock d arg ctx) sa"
  by (simp add: executeEndpoint_def bnd_def)

lemma tryBlock_handled:
  "fetchResult bq d arg sa = (sb, Inr (r, t)) \<Longrightarrow> js_truthy (qr_error r) \<Longrightarrow>
     tryBlock bq d arg ctx sa = (sb, Inl (HandledError (qr_error r) (qr_meta r)))"
  by (simp add: tryBlock_def bnd_def throw_def)

lemma catchBlock_handled:
  "catchBlock d arg ctx (HandledError v m) s
     = after_onError d arg ctx v m (Inr (RejectWithValue v)) s"
  by (auto simp: catchBlock_def after_onError_def bnd_def call_if_defined_def call_def ret_def
        split: option.splits prod.splits sum.splits)

lemma catchBlock_thrown:
  "catchBlock d arg ctx (Thrown e) s = after_onError d arg ctx e JUndefined (Inl (Thrown e)) s"
  by (auto simp: catchBlock_def after_onError_def bnd_def call_if_defined_def call_def ret_def
        throw_def split: option.splits prod.splits sum.splits)

lemma fetchResult_transform:
  assumes "fetchResult bq d arg sa = (sb, Inr (r, t))"
  shows "t = (case base d of
                WithQuery q (Some tr) \<Rightarrow> tr
              | WithQuery q None \<Rightarrow> defaultTransformResponse
              | WithQueryFn f \<Rightarrow> defaultTransformResponse)"
  using assms
  by (auto simp: fetchResult_def bnd_def call_def ret_def
        split: BaseEndpointDefinition.splits option.splits prod.splits sum.splits)

lemmas ex_defs =
  ex_onStart_def ex_stash_def ex_onSuccess_def ex_onError_def ex_throwing_onStart_def
  ex_throwing_onError_def ex_query_def ex_baseQuery_def ex_transformResponse_def
  ex_throwing_transformResponse_def ex_endpoint_def ex_definitions_def ex_state_def ex_arg_def

lemmas exec_defs =
  executeEndpoint_def startExecution_def tryBlock_def catchBlock_def fetchResult_def
  bnd_def ret_def throw_def call_def call_if_defined_def try_catch_def new_context_def
  date_now_def

text \<open>
  Claim C3 as stated does not hold, in three ways. An exception thrown by the hook
  \<^verbatim>\<open>onStart\<close> propagates and \<^verbatim>\<open>onError\<close>, though defined, is not invoked: \<^verbatim>\<open>onStart\<close> is
  called before the \<^verbatim>\<open>try\<close> block. When the transport resolves to a result with an error
  and \<^verbatim>\<open>onError\<close> throws, the execution ends with what \<^verbatim>\<open>onError\<close> threw, not as a rejection
  with the error payload. And a result whose \<^verbatim>\<open>error\<close> field is present but falsy, here the
  empty string, is a success: \<^verbatim>\<open>onSuccess\<close> is called and the execution is fulfilled.
\<close>

theorem executeEndpoint_errors_counterexample:
  "snd (executeEndpoint ex_baseQuery ex_definitions (ex_arg ''failingStart'' (JStr ''/success''))
          ex_state)
     = Inl (Thrown (JStr ''onStart failed''))
   \<and> trace (fst (executeEndpoint ex_baseQuery ex_definitions
                   (ex_arg ''failingStart'' (JStr ''/success'')) ex_state))
     = [CallOnStart (JStr ''/success'') 0]
   \<and> snd (executeEndpoint ex_baseQuery ex_definitions (ex_arg ''failingOnError'' (JStr ''/error''))
            ex_state)
     = Inl (Thrown (JStr ''onError failed''))
   \<and> snd (executeEndpoint ex_baseQuery ex_definitions (ex_arg ''query'' (JStr ''/empty-error''))
            ex_state)
     = Inr (Fulfill \<lparr>thunk_fulfilledTimeStamp = 1150, thunk_result = JArr [JUndefined]\<rparr>)
   \<and> trace (fst (executeEndpoint ex_baseQuery ex_definitions
                   (ex_arg ''query'' (JStr ''/empty-error'')) ex_state))
     = [CallOnStart (JStr ''/empty-error'') 0, CallQuery (JStr ''/empty-error''),
        CallBaseQuery (JObj [(''url'', JStr ''/empty-error'')]) JUndefined,
        CallOnSuccess (JStr ''/empty-error'') 0 JUndefined (JStr ''meta''),
        CallDateNow, CallTransformResponse JUndefined (JStr ''meta'')]"
  by (simp add: ex_defs exec_defs)

text \<open>
  Claim C3, amended. Let the execution have passed \<^verbatim>\<open>onStart\<close>. If the transport or the
  custom \<^verbatim>\<open>queryFn\<close> resolves to a result whose \<^verbatim>\<open>error\<close> field is truthy, then \<^verbatim>\<open>onError\<close>,
  when defined, is invoked with that error payload and the metadata of the result, and the
  execution ends as a rejection with value carrying exactly that payload, unless
  \<^verbatim>\<open>onError\<close> throws, and then with what it threw. If the \<^verbatim>\<open>try\<close> block (request
  building, transport, \<^verbatim>\<open>onSuccess\<close>, response transformation) throws a value that is not a
  \<^verbatim>\<open>HandledError\<close>, then \<^verbatim>\<open>onError\<close>, when defined, is invoked with that value and no
  metadata, and the value is thrown again, never turned into a rejection with value,
  unless \<^verbatim>\<open>onError\<close> throws, and then what it threw is thrown. A value thrown by
  \<^verbatim>\<open>onStart\<close> ends the execution at once, with no call of \<^verbatim>\<open>onError\<close>.
\<close>

theorem executeEndpoint_error_paths:
  "(startExecution defs arg s = (sa, Inr (ctx, d)) \<longrightarrow>
      fetchResult bq d arg sa = (sb, Inr (r, t)) \<longrightarrow> js_truthy (qr_error r) \<longrightarrow>
      executeEndpoint bq defs arg s =
        after_onError d arg ctx (qr_error r) (qr_meta r) (Inr (RejectWithValue (qr_error r))) sb)
   \<and> (startExecution defs arg s = (sa, Inr (ctx, d)) \<longrightarrow>
      tryBlock bq d arg ctx sa = (sb, Inl (Thrown e)) \<longrightarrow>
      executeEndpoint bq defs arg s = after_onError d arg ctx e JUndefined (Inl (Thrown e)) sb)
   \<and> (defs (endpointName arg) = Some d \<longrightarrow> onStart d = Some h \<longrightarrow>
      h (originalArgs arg) (allocated s) (world (fst (new_context s))) = (w, Inl x) \<longrightarrow>
      executeEndpoint bq defs arg s =
        ((fst (new_context s))
           \<lparr>world := w, trace := trace s @ [CallOnStart (originalArgs arg) (allocated s)]\<rparr>,
         Inl x))"
proof (intro conjI impI)
  assume "startExecution defs arg s = (sa, Inr (ctx, d))"
    and "fetchResult bq d arg sa = (sb, Inr (r, t))" and "js_truthy (qr_error r)"
  then show "executeEndpoint bq defs arg s =
        after_onError d arg ctx (qr_error r) (qr_meta r) (Inr (RejectWithValue (qr_error r))) sb"
    by (simp add: executeEndpoint_started tryBlock_handled try_catch_def catchBlock_handled)
next
  assume "startExecution defs arg s = (sa, Inr (ctx, d))"
    and "tryBlock bq d arg ctx sa = (sb, Inl (Thrown e))"
  then show "executeEndpoint bq defs arg s
               = after_onError d arg ctx e JUndefined (Inl (Thrown e)) sb"
    by (simp add: executeEndpoint_started try_catch_def catchBlock_thrown)
next
  assume "defs (endpointName arg) = Some d" and "onStart d = Some h"
    and "h (originalArgs arg) (allocated s) (world (fst (new_context s))) = (w, Inl x)"
  then have "startExecution defs arg s =
           ((fst (new_context s))
              \<lparr>world := w, trace := trace s @ [CallOnStart (originalArgs arg) (allocated s)]\<rparr>,
            Inl x)"
    by (simp add: startExecution_onStart)
  then show "executeEndpoint bq defs arg s =
        ((fst (new_context s))
           \<lparr>world := w, trace := trace s @ [CallOnStart (originalArgs arg) (allocated s)]\<rparr>,
         Inl x)"
    by (rule executeEndpoint_start_throws)
qed

text \<open>The three paths in the sample application: the transport answers with an error;
  the response transformation throws; \<^verbatim>\<open>onStart\<close> throws.\<close>

theorem executeEndpoint_error_paths_witness:
  "snd (executeEndpoint ex_baseQuery ex_definitions (ex_arg ''query'' (JStr ''/error'')) ex_state)
     = Inr (RejectWithValue (JObj [(''status'', JNum 500)]))
   \<and> trace (fst (executeEndpoint ex_baseQuery ex_definitions (ex_arg ''query'' (JStr ''/error''))
                   ex_state))
     = [CallOnStart (JStr ''/error'') 0, CallQuery (JStr ''/error''),
        CallBaseQuery (JObj [(''url'', JStr ''/error'')]) JUndefined,
        CallOnError (JStr ''/error'') 0 (JObj [(''status'', JNum 500)]) (JStr ''meta'')]
   \<and> snd (executeEndpoint ex_baseQuery ex_definitions
            (ex_arg ''failingTransform'' (JStr ''/success'')) ex_state)
     = Inl (Thrown (JStr ''transform failed''))
   \<and> last (trace (fst (executeEndpoint ex_baseQuery ex_definitions
                         (ex_arg ''failingTransform'' (JStr ''/success'')) ex_state)))
     = CallOnError (JStr ''/success'') 0 (JStr ''transform failed'') JUndefined
   \<and> executeEndpoint ex_baseQuery ex_definitions (ex_arg ''failingStart'' (JStr ''/success''))
        ex_state
     = ((fst (new_context ex_state))\<lparr>trace := [CallOnStart (JStr ''/success'') 0]\<rparr>,
        Inl (Thrown (JStr ''onStart failed'')))"
proof -
  define a1 where "a1 = ex_arg ''query'' (JStr ''/error'')"
  define sa1 where "sa1 = fst (startExecution ex_definitions a1 ex_state)"
  define sb1 where "sb1 = fst (fetchResult ex_baseQuery ex_endpoint a1 sa1)"
  define r1 where "r1 = \<lparr>qr_data = JUndefined, qr_error = JObj [(''status'', JNum 500)],
                         qr_meta = JStr ''meta''\<rparr>"
  have start1: "startExecution ex_definitions a1 ex_state = (sa1, Inr (0, ex_endpoint))"
    unfolding sa1_def a1_def by (simp add: ex_defs exec_defs)
  have fetch1: "fetchResult ex_baseQuery ex_endpoint a1 sa1 = (sb1, Inr (r1, ex_transformResponse))"
    unfolding sb1_def sa1_def a1_def r1_def by (simp add: ex_defs exec_defs)
  have truthy1: "js_truthy (qr_error r1)"
    by (simp add: r1_def)
  define a2 where "a2 = ex_arg ''failingTransform'' (JStr ''/success'')"
  define d2 where "d2 = ex_endpoint\<lparr>base := WithQuery ex_query (Some ex_throwing_transformResponse)\<rparr>"
  define sa2 where "sa2 = fst (startExecution ex_definitions a2 ex_state)"
  define sb2 where "sb2 = fst (tryBlock ex_baseQuery d2 a2 0 sa2)"
  have start2: "startExecution ex_definitions a2 ex_state = (sa2, Inr (0, d2))"
    unfolding sa2_def a2_def d2_def by (simp add: ex_defs exec_defs)
  have try2: "tryBlock ex_baseQuery d2 a2 0 sa2 = (sb2, Inl (Thrown (JStr ''transform failed'')))"
    unfolding sb2_def sa2_def a2_def d2_def by (simp add: ex_defs exec_defs)
  define a3 where "a3 = ex_arg ''failingStart'' (JStr ''/success'')"
  have def3: "ex_definitions (endpointName a3) = Some (ex_endpoint\<lparr>onStart := Some ex_throwing_onStart\<rparr>)"
    by (simp add: a3_def ex_definitions_def ex_arg_def)
  have hook3: "onStart (ex_endpoint\<lparr>onStart := Some ex_throwing_onStart\<rparr>) = Some ex_throwing_onStart"
    by simp
  have throws3: "ex_throwing_onStart (originalArgs a3) (allocated ex_state)
                   (world (fst (new_context ex_state)))
                 = (world (fst (new_context ex_state)), Inl (Thrown (JStr ''onStart failed'')))"
    by (simp add: ex_throwing_onStart_def)
  note p1 = executeEndpoint_error_paths [THEN conjunct1, rule_format, OF start1 fetch1 truthy1]
  note p2 = executeEndpoint_error_paths [THEN conjunct2, THEN conjunct1, rule_format, OF start2 try2]
  note p3 = executeEndpoint_error_paths
              [where defs = ex_definitions and arg = a3 and s = ex_state
                 and d = "ex_endpoint\<lparr>onStart := Some ex_throwing_onStart\<rparr>"
                 and h = ex_throwing_onStart and bq = ex_baseQuery,
               THEN conjunct2, THEN conjunct2, rule_format, OF def3 hook3 throws3]
  from p1 p2 p3 show ?thesis
    unfolding a1_def a2_def a3_def sa1_def sb1_def r1_def sa2_def sb2_def d2_def
    by (simp add: after_onError_def ex_defs exec_defs)
qed


lemma startExecution_returns:
  assumes "defs (endpointName arg) = Some d"
    and "w0 = (world s)\<lparr>contexts := (contexts (world s))(allocated s := Map.empty)\<rparr>"
    and "(case onStart d of
            None \<Rightarrow> (w0, Inr ())
          | Some h \<Rightarrow> h (originalArgs arg) (allocated s) w0) = (w1, Inr ())"
  shows "startExecution defs arg s =
           (s\<lparr>world := w1, allocated := Suc (allocated s),
              trace := trace s @
                (case onStart d of
                   None \<Rightarrow> []
                 | Some h \<Rightarrow> [CallOnStart (originalArgs arg) (allocated s)])\<rparr>,
            Inr (allocated s, d))"
  using assms
  by (auto simp: startExecution_def new_context_def bnd_def ret_def call_if_defined_def call_def
        split: option.splits)

lemma fetchResult_resolves:
  assumes "(\<exists>q tr w2 request.
              base d = WithQuery q tr \<and> q (originalArgs arg) (world sa) = (w2, Inr request) \<and>
              bq request (extraOptions d) w2 = (w3, Inr r) \<and>
              calls = [CallQuery (originalArgs arg), CallBaseQuery request (extraOptions d)])
           \<or> (\<exists>f. base d = WithQueryFn f \<and>
                 f (originalArgs arg) (extraOptions d) (\<lambda>a. bq a (extraOptions d)) (world sa)
                   = (w3, Inr r) \<and>
                 calls = [CallQueryFn (originalArgs arg) (extraOptions d)])"
  shows "fetchResult bq d arg sa =
           (sa\<lparr>world := w3, trace := trace sa @ calls\<rparr>,
            Inr (r, case base d of
                      WithQuery q (Some tr) \<Rightarrow> tr
                    | WithQuery q None \<Rightarrow> defaultTransformResponse
                    | WithQueryFn f \<Rightarrow> defaultTransformResponse))"
  using assms
  by (auto simp: fetchResult_def bnd_def ret_def call_def split: option.splits)

lemma executeEndpoint_fulfils:
  assumes d: "defs (endpointName arg) = Some d"
    and w0: "w0 = (world s)\<lparr>contexts := (contexts (world s))(allocated s := Map.empty)\<rparr>"
    and start: "(case onStart d of
                   None \<Rightarrow> (w0, Inr ())
                 | Some h \<Rightarrow> h (originalArgs arg) (allocated s) w0) = (w1, Inr ())"
    and transport:
      "(\<exists>q tr w2 request.
          base d = WithQuery q tr \<and> q (originalArgs arg) w1 = (w2, Inr request) \<and>
          bq request (extraOptions d) w2 = (w3, Inr r) \<and>
          calls = [CallQuery (originalArgs arg), CallBaseQuery request (extraOptions d)])
       \<or> (\<exists>f. base d = WithQueryFn f \<and>
             f (originalArgs arg) (extraOptions d) (\<lambda>a. bq a (extraOptions d)) w1 = (w3, Inr r) \<and>
             calls = [CallQueryFn (originalArgs arg) (extraOptions d)])"
    and ok: "\<not> js_truthy (qr_error r)"
    and success: "(case onSuccess d of
                     None \<Rightarrow> (w3, Inr ())
                   | Some h \<Rightarrow> h (originalArgs arg) (allocated s) (qr_data r) (qr_meta r) w3)
                  = (w4, Inr ())"
    and transform: "(case base d of
                       WithQuery q (Some tr) \<Rightarrow> tr (qr_data r) (qr_meta r) w4
                     | WithQuery q None \<Rightarrow> (w4, Inr (qr_data r))
                     | WithQueryFn f \<Rightarrow> (w4, Inr (qr_data r))) = (w5, Inr v)"
  shows "executeEndpoint bq defs arg s =
           (s\<lparr>world := w5, allocated := Suc (allocated s),
              trace := trace s @
                (case onStart d of
                   None \<Rightarrow> []
                 | Some h \<Rightarrow> [CallOnStart (originalArgs arg) (allocated s)]) @
                calls @
                (case onSuccess d of
                   None \<Rightarrow> []
                 | Some h \<Rightarrow>
                     [CallOnSuccess (originalArgs arg) (allocated s) (qr_data r) (qr_meta r)]) @
                [CallDateNow, CallTransformResponse (qr_data r) (qr_meta r)]\<rparr>,
            Inr (Fulfill \<lparr>thunk_fulfilledTimeStamp = clock w4, thunk_result = v\<rparr>))"
proof -
  define sa where
    "sa = s\<lparr>world := w1, allocated := Suc (allocated s),
            trace := trace s @
              (case onStart d of
                 None \<Rightarrow> []
               | Some h \<Rightarrow> [CallOnStart (originalArgs arg) (allocated s)])\<rparr>"
  have st: "startExecution defs arg s = (sa, Inr (allocated s, d))"
    unfolding sa_def using d w0 start by (rule startExecution_returns)
  have wsa: "world sa = w1" by (simp add: sa_def)
  have fetch: "fetchResult bq d arg sa =
           (sa\<lparr>world := w3, trace := trace sa @ calls\<rparr>,
            Inr (r, case base d of
                      WithQuery q (Some tr) \<Rightarrow> tr
                    | WithQuery q None \<Rightarrow> defaultTransformResponse
                    | WithQueryFn f \<Rightarrow> defaultTransformResponse))"
    using transport by (intro fetchResult_resolves) (simp add: wsa)
  have tf: "(case base d of
               WithQuery q (Some tr) \<Rightarrow> tr
             | WithQuery q None \<Rightarrow> defaultTransformResponse
             | WithQueryFn f \<Rightarrow> defaultTransformResponse) (qr_data r) (qr_meta r) w4
            = (w5, Inr v)"
    using transform
    by (auto simp: defaultTransformResponse_def split: BaseEndpointDefinition.splits option.splits)
  have "tryBlock bq d arg (allocated s) sa =
          (sa\<lparr>world := w5,
              trace := trace sa @ calls @
                (case onSuccess d of
                   None \<Rightarrow> []
                 | Some h \<Rightarrow>
                     [CallOnSuccess (originalArgs arg) (allocated s) (qr_data r) (qr_meta r)]) @
                [CallDateNow, CallTransformResponse (qr_data r) (qr_meta r)]\<rparr>,
           Inr (Fulfill \<lparr>thunk_fulfilledTimeStamp = clock w4, thunk_result = v\<rparr>))"
    using ok success tf
    by (auto simp: tryBlock_def fetch bnd_def ret_def date_now_def call_def call_if_defined_def
          split: option.splits)
  then show ?thesis
    using st by (simp add: executeEndpoint_started try_catch_def sa_def)
qed








text \<open>
  Claim C10. Let the definition of the endpoint be found, let \<^verbatim>\<open>onStart\<close>, when defined,
  return, and let the transport, called in the world that \<^verbatim>\<open>onStart\<close> has left, resolve to a
  result \<open>r\<close> whose error field is not truthy. Then \<^verbatim>\<open>onSuccess\<close>, when defined, is called
  next, in the world the transport has left, with the data and the meta of \<open>r\<close> as the
  transport returned them; the time stamp of the fulfilment is the clock when \<^verbatim>\<open>onSuccess\<close>
  has returned, before \<^verbatim>\<open>transformResponse\<close> runs; \<^verbatim>\<open>transformResponse\<close> is applied after
  that, to the same data and meta, and what it returns is the result of the execution,
  which is the data itself when the endpoint defines no transformation or is defined by
  \<^verbatim>\<open>queryFn\<close>. The calls are made in this order and no other call is made.
\<close>

theorem executeEndpoint_success:
  assumes "defs (endpointName arg) = Some d"
    and "wa = (world s)\<lparr>contexts := (contexts (world s))(allocated s := Map.empty)\<rparr>"
    and "(case onStart d of
            None \<Rightarrow> (wa, Inr ())
          | Some h \<Rightarrow> h (originalArgs arg) (allocated s) wa) = (wb, Inr ())"
    and "(\<exists>q tr w request.
            base d = WithQuery q tr \<and> q (originalArgs arg) wb = (w, Inr request) \<and>
            bq request (extraOptions d) w = (wc, Inr r) \<and>
            calls = [CallQuery (originalArgs arg), CallBaseQuery request (extraOptions d)])
         \<or> (\<exists>f. base d = WithQueryFn f \<and>
               f (originalArgs arg) (extraOptions d) (\<lambda>a. bq a (extraOptions d)) wb
                 = (wc, Inr r) \<and>
               calls = [CallQueryFn (originalArgs arg) (extraOptions d)])"
    and "\<not> js_truthy (qr_error r)"
    and "(case onSuccess d of
            None \<Rightarrow> (wc, Inr ())
          | Some h \<Rightarrow> h (originalArgs arg) (allocated s) (qr_data r) (qr_meta r) wc)
           = (wd, Inr ())"
    and "(case base d of
            WithQuery q (Some tr) \<Rightarrow> tr (qr_data r) (qr_meta r) wd
          | WithQuery q None \<Rightarrow> (wd, Inr (qr_data r))
          | WithQueryFn f \<Rightarrow> (wd, Inr (qr_data r))) = (we, Inr v)"
  shows "executeEndpoint bq defs arg s =
           (s\<lparr>world := we, allocated := Suc (allocated s),
              trace := trace s @
                (case onStart d of
                   None \<Rightarrow> []
                 | Some h \<Rightarrow> [CallOnStart (originalArgs arg) (allocated s)]) @
                calls @
                (case onSuccess d of
                   None \<Rightarrow> []
                 | Some h \<Rightarrow>
                     [CallOnSuccess (originalArgs arg) (allocated s) (qr_data r) (qr_meta r)]) @
                [CallDateNow, CallTransformResponse (qr_data r) (qr_meta r)]\<rparr>,
            Inr (Fulfill \<lparr>thunk_fulfilledTimeStamp = clock wd, thunk_result = v\<rparr>))"
  using assms by (rule executeEndpoint_fulfils)

theorem executeEndpoint_success_witness:
  "executeEndpoint ex_baseQuery ex_definitions (ex_arg ''query'' (JStr ''/success'')) ex_state =
     (ex_state
        \<lparr>world :=
           \<lparr>clock = 1160,
            contexts = (\<lambda>_. Map.empty)(0 := [''startedWith'' \<mapsto> JStr ''/success'']),
            store = JArr [JStr ''success'', JStr ''/success'',
                          JObj [(''value'', JStr ''success'')]]\<rparr>,
         allocated := 1,
         trace :=
           [CallOnStart (JStr ''/success'') 0, CallQuery (JStr ''/success''),
            CallBaseQuery (JObj [(''url'', JStr ''/success'')]) JUndefined,
            CallOnSuccess (JStr ''/success'') 0 (JObj [(''value'', JStr ''success'')])
              (JStr ''meta''),
            CallDateNow,
            CallTransformResponse (JObj [(''value'', JStr ''success'')]) (JStr ''meta'')]\<rparr>,
      Inr (Fulfill \<lparr>thunk_fulfilledTimeStamp = 1150,
                    thunk_result = JArr [JObj [(''value'', JStr ''success'')]]\<rparr>))
   \<and> snd (executeEndpoint ex_baseQuery
            (ex_definitions(''plain'' \<mapsto> ex_endpoint\<lparr>base := WithQuery ex_query None\<rparr>))
            (ex_arg ''plain'' (JStr ''/success'')) ex_state)
     = Inr (Fulfill \<lparr>thunk_fulfilledTimeStamp = 1150,
                     thunk_result = JObj [(''value'', JStr ''success'')]\<rparr>)"
proof -
  define wa :: "jsval world" where "wa = \<lparr>clock = 1000, contexts = (\<lambda>_. Map.empty), store = JNull\<rparr>"
  define wb where "wb = wa\<lparr>contexts := (\<lambda>_. Map.empty)(0 := [''startedWith'' \<mapsto> JStr ''/success''])\<rparr>"
  define wc where "wc = wb\<lparr>clock := 1150\<rparr>"
  define wd where
    "wd = wc\<lparr>store := JArr [JStr ''success'', JStr ''/success'',
                            JObj [(''value'', JStr ''success'')]]\<rparr>"
  define we where "we = wd\<lparr>clock := 1160\<rparr>"
  define r where
    "r = \<lparr>qr_data = JObj [(''value'', JStr ''success'')], qr_error = JUndefined,
          qr_meta = JStr ''meta''\<rparr>"
  define calls where
    "calls = [CallQuery (JStr ''/success''),
              CallBaseQuery (JObj [(''url'', JStr ''/success'')]) JUndefined]"
  have fresh: "wa = (world ex_state)
                 \<lparr>contexts := (contexts (world ex_state))(allocated ex_state := Map.empty)\<rparr>"
    by (simp add: wa_def ex_state_def fun_upd_idem)
  have start: "ex_onStart (JStr ''/success'') 0 wa = (wb, Inr ())"
    by (simp add: ex_onStart_def wa_def wb_def)
  have build: "ex_query (JStr ''/success'') wb = (wb, Inr (JObj [(''url'', JStr ''/success'')]))"
    by (simp add: ex_query_def)
  have transport: "ex_baseQuery (JObj [(''url'', JStr ''/success'')]) JUndefined wb = (wc, Inr r)"
    by (simp add: ex_baseQuery_def wa_def wb_def wc_def r_def)
  have success: "ex_onSuccess (JStr ''/success'') 0 (qr_data r) (qr_meta r) wc = (wd, Inr ())"
    by (simp add: ex_onSuccess_def ex_stash_def wa_def wb_def wc_def wd_def r_def)
  have transform: "ex_transformResponse (qr_data r) (qr_meta r) wd
                     = (we, Inr (JArr [JObj [(''value'', JStr ''success'')]]))"
    by (simp add: ex_transformResponse_def wa_def wb_def wc_def wd_def we_def r_def)
  have one: "executeEndpoint ex_baseQuery ex_definitions (ex_arg ''query'' (JStr ''/success''))
               ex_state
             = (ex_state\<lparr>world := we, allocated := Suc (allocated ex_state),
                  trace := trace ex_state @ [CallOnStart (JStr ''/success'') 0] @ calls @
                    [CallOnSuccess (JStr ''/success'') 0 (qr_data r) (qr_meta r)] @
                    [CallDateNow, CallTransformResponse (qr_data r) (qr_meta r)]\<rparr>,
                Inr (Fulfill \<lparr>thunk_fulfilledTimeStamp = clock wd,
                              thunk_result = JArr [JObj [(''value'', JStr ''success'')]]\<rparr>))"
    using executeEndpoint_success
      [where bq = ex_baseQuery and defs = ex_definitions
         and arg = "ex_arg ''query'' (JStr ''/success'')" and s = ex_state and d = ex_endpoint
         and wa = wa and wb = wb and wc = wc and wd = wd and we = we and r = r
         and calls = calls and v = "JArr [JObj [(''value'', JStr ''success'')]]"]
      fresh start build transport success transform
    by (simp add: ex_definitions_def ex_endpoint_def ex_arg_def calls_def r_def
          ex_state_def)
  have two: "executeEndpoint ex_baseQuery
               (ex_definitions(''plain'' \<mapsto> ex_endpoint\<lparr>base := WithQuery ex_query None\<rparr>))
               (ex_arg ''plain'' (JStr ''/success'')) ex_state
             = (ex_state\<lparr>world := wd, allocated := Suc (allocated ex_state),
                  trace := trace ex_state @ [CallOnStart (JStr ''/success'') 0] @ calls @
                    [CallOnSuccess (JStr ''/success'') 0 (qr_data r) (qr_meta r)] @
                    [CallDateNow, CallTransformResponse (qr_data r) (qr_meta r)]\<rparr>,
                Inr (Fulfill \<lparr>thunk_fulfilledTimeStamp = clock wd,
                              thunk_result = qr_data r\<rparr>))"
    using executeEndpoint_success
      [where bq = ex_baseQuery
         and defs = "ex_definitions(''plain'' \<mapsto> ex_endpoint\<lparr>base := WithQuery ex_query None\<rparr>)"
         and arg = "ex_arg ''plain'' (JStr ''/success'')" and s = ex_state
         and d = "ex_endpoint\<lparr>base := WithQuery ex_query None\<rparr>"
         and wa = wa and wb = wb and wc = wc and wd = wd and we = wd and r = r
         and calls = calls and v = "qr_data r"]
      fresh start build transport success
    by (simp add: ex_endpoint_def ex_arg_def calls_def r_def ex_state_def)
  show ?thesis
    unfolding one two
    by (simp add: wa_def wb_def wc_def wd_def we_def r_def calls_def ex_state_def)
qed

end
